theory Spec2Isabelle
  imports Main
begin

unbundle bit_operations_syntax

section \<open>The work queue of \<open>bookmarks/threads.py\<close>\<close>

text \<open>
  Exceptions of the Python code are values. \<open>Full\<close> and \<open>Empty\<close> are the two
  exceptions of the \<open>Queue\<close> module; the others are the built-in exceptions that the
  modelled code can raise.
\<close>

datatype exc =
  Full | Empty | ValueError | TypeError | KeyError | IndexError | AttributeError
  | UnboundLocalError | OSError | RuntimeError

text \<open>The outcome of a call: the value it returns, or the exception it raises.\<close>

datatype 'a res = Val 'a | Exc exc

text \<open>
  \<open>collections.deque\<close> as a list whose head is the left end of the deque:
  \<open>appendleft\<close> conses, \<open>append\<close> adds at the right end, \<open>pop\<close> removes the right
  end and raises \<open>IndexError\<close> on an empty deque.
\<close>

definition appendleft :: "'a list \<Rightarrow> 'a \<Rightarrow> 'a list" where
  "appendleft dq x = x # dq"

definition append_right :: "'a list \<Rightarrow> 'a \<Rightarrow> 'a list" where
  "append_right dq x = dq @ [x]"

definition pop :: "'a list \<Rightarrow> ('a \<times> 'a list) res" where
  "pop dq = (case dq of [] \<Rightarrow> Exc IndexError | _ # _ \<Rightarrow> Val (last dq, butlast dq))"

text \<open>
  \<open>UniqueQueue._put\<close> and \<open>UniqueQueue._get\<close> (the leading underscore is dropped):
  \<^verbatim>\<open>
    def _put(self, item, force=False):
        if force:  # Force the item to the beginning of the queue
            self.queue.append(item)
        else:  # otherwise append to the end
            self.queue.appendleft(item)

    def _get(self):
        return self.queue.pop()
  \<close>
\<close>

definition priv_put :: "'a list \<Rightarrow> 'a \<Rightarrow> bool \<Rightarrow> 'a list" where
  "priv_put dq item force = (if force then append_right dq item else appendleft dq item)"

definition priv_get :: "'a list \<Rightarrow> ('a \<times> 'a list) res" where
  "priv_get dq = pop dq"

text \<open>
  A run of submissions \<open>(item, force)\<close> with no dequeue in between, and the order in
  which repeated \<open>_get\<close> calls then hand the items out.
\<close>

fun submit_all :: "'a list \<Rightarrow> ('a \<times> bool) list \<Rightarrow> 'a list" where
  "submit_all dq [] = dq"
| "submit_all dq ((item, force) # ops) = submit_all (priv_put dq item force) ops"

function dequeue_all :: "'a list \<Rightarrow> 'a list" where
  "dequeue_all dq =
     (case priv_get dq of Exc e \<Rightarrow> [] | Val (item, dq') \<Rightarrow> item # dequeue_all dq')"
  by pat_completeness auto
termination
  by (relation "measure length") (auto simp: priv_get_def pop_def split: list.splits)

declare dequeue_all.simps [simp del]

definition forced :: "('a \<times> bool) list \<Rightarrow> 'a list" where
  "forced ops = map fst (filter snd ops)"

definition normal :: "('a \<times> bool) list \<Rightarrow> 'a list" where
  "normal ops = map fst (filter (\<lambda>p. \<not> snd p) ops)"

text \<open>\<open>dequeued_before x y out\<close>: both come out, and \<open>x\<close> comes out first.\<close>

definition dequeued_before :: "'a \<Rightarrow> 'a \<Rightarrow> 'a list \<Rightarrow> bool" where
  "dequeued_before x y out =
     (x \<in> set out \<and> y \<in> set out \<and>
      length (takeWhile (\<lambda>z. z \<noteq> x) out) < length (takeWhile (\<lambda>z. z \<noteq> y) out))"

text \<open>
  The queue object. \<open>UniqueQueue\<close> inherits \<open>maxsize\<close> and \<open>unfinished_tasks\<close> from
  \<open>Queue.Queue\<close>; \<open>_init\<close> makes \<open>queue\<close> an empty deque. \<open>BaseWorker.__init__\<close>
  builds its queue as \<open>UniqueQueue()\<close>, that is with \<open>maxsize = 0\<close>.
\<close>

record 'a UniqueQueue =
  maxsize :: int
  queue :: "'a list"
  unfinished_tasks :: int

definition UniqueQueue_init :: "'a UniqueQueue" where
  "UniqueQueue_init = \<lparr>maxsize = 0, queue = [], unfinished_tasks = 0\<rparr>"

definition qsize :: "'a UniqueQueue \<Rightarrow> int" where
  "qsize q = int (length (queue q))"

text \<open>
  \<open>UniqueQueue.put(item, block, timeout, force)\<close>. The calling thread is the only one
  the model runs, so a wait on \<open>not_full\<close> is never answered: with no timeout the call
  does not return (the value \<open>None\<close>), with a timeout it ends in \<open>Full\<close>.
\<close>

definition put ::
  "'a UniqueQueue \<Rightarrow> 'a \<Rightarrow> bool \<Rightarrow> int option \<Rightarrow> bool \<Rightarrow> 'a UniqueQueue res option" where
  "put q item block timeout force =
     (let enqueued =
            Some (Val (q\<lparr>queue := priv_put (queue q) item force,
                         unfinished_tasks := unfinished_tasks q + 1\<rparr>))
      in if maxsize q > 0 then
           (if \<not> block then
              (if qsize q \<ge> maxsize q then Some (Exc Full) else enqueued)
            else
              (case timeout of
                 None \<Rightarrow> (if qsize q \<ge> maxsize q then None else enqueued)
               | Some t \<Rightarrow>
                   if t < 0 then Some (Exc ValueError)
                   else if qsize q \<ge> maxsize q then Some (Exc Full)
                   else enqueued))
         else enqueued)"

text \<open>\<open>Queue.get(False)\<close>, the only way the workers call it, and \<open>Queue.task_done()\<close>.\<close>

definition get :: "'a UniqueQueue \<Rightarrow> ('a \<times> 'a UniqueQueue) res" where
  "get q =
     (if qsize q = 0 then Exc Empty
      else case priv_get (queue q) of
             Exc e \<Rightarrow> Exc e
           | Val (item, dq) \<Rightarrow> Val (item, q\<lparr>queue := dq\<rparr>))"

definition task_done :: "'a UniqueQueue \<Rightarrow> 'a UniqueQueue res" where
  "task_done q =
     (let unfinished = unfinished_tasks q - 1
      in if unfinished \<le> 0 \<and> unfinished < 0 then Exc ValueError
         else Val (q\<lparr>unfinished_tasks := unfinished\<rparr>))"

section \<open>Strings and numbers of Python\<close>

text \<open>
  \<open>int(s)\<close> on a string: surrounding white space is dropped, one sign may lead, the
  rest must be one or more decimal digits; anything else raises \<open>ValueError\<close>.
\<close>

definition digit_of :: "char \<Rightarrow> nat option" where
  "digit_of c =
     (let n = (of_char c :: nat) in if 48 \<le> n \<and> n \<le> 57 then Some (n - 48) else None)"

fun digits_value :: "string \<Rightarrow> nat \<Rightarrow> nat option" where
  "digits_value [] acc = Some acc"
| "digits_value (c # cs) acc =
     (case digit_of c of None \<Rightarrow> None | Some d \<Rightarrow> digits_value cs (10 * acc + d))"

definition isspace :: "char \<Rightarrow> bool" where
  "isspace c = (let n = (of_char c :: nat) in n = 32 \<or> (9 \<le> n \<and> n \<le> 13))"

definition strip :: "string \<Rightarrow> string" where
  "strip s = rev (dropWhile isspace (rev (dropWhile isspace s)))"

definition py_int :: "string \<Rightarrow> int res" where
  "py_int s =
     (let t = strip s;
          (neg, ds) =
            (case t of
               [] \<Rightarrow> (False, t)
             | c # cs \<Rightarrow>
                 if c = CHR ''-'' then (True, cs)
                 else if c = CHR ''+'' then (False, cs)
                 else (False, t))
      in if ds = [] then Exc ValueError
         else case digits_value ds 0 of
                None \<Rightarrow> Exc ValueError
              | Some n \<Rightarrow> Val (if neg then - int n else int n))"

text \<open>\<open>[int(f) for f in frs]\<close>: the first string that is no number raises.\<close>

fun int_list :: "string list \<Rightarrow> int list res" where
  "int_list [] = Val []"
| "int_list (f # frs) =
     (case py_int f of
        Exc e \<Rightarrow> Exc e
      | Val i \<Rightarrow> (case int_list frs of Exc e \<Rightarrow> Exc e | Val is \<Rightarrow> Val (i # is)))"

text \<open>\<open>unicode(n)\<close> of an integer, and \<open>s.zfill(width)\<close>.\<close>

definition digit_char :: "nat \<Rightarrow> char" where
  "digit_char d = char_of (48 + d)"

function str_nat :: "nat \<Rightarrow> string" where
  "str_nat n = (if n < 10 then [digit_char n] else str_nat (n div 10) @ [digit_char (n mod 10)])"
  by pat_completeness auto
termination
  by (relation "measure id") auto

declare str_nat.simps [simp del]

definition unicode :: "int \<Rightarrow> string" where
  "unicode i = (if i < 0 then CHR ''-'' # str_nat (nat (- i)) else str_nat (nat i))"

definition zfill :: "string \<Rightarrow> nat \<Rightarrow> string" where
  "zfill s width =
     (if width \<le> length s then s
      else let fill = replicate (width - length s) CHR ''0''
           in case s of
                [] \<Rightarrow> fill
              | c # cs \<Rightarrow> if c = CHR ''+'' \<or> c = CHR ''-'' then c # fill @ cs else fill @ s)"

text \<open>\<open>min(xs)\<close> and \<open>max(xs)\<close> raise \<open>ValueError\<close> on an empty list.\<close>

definition py_min :: "int list \<Rightarrow> int res" where
  "py_min xs = (case xs of [] \<Rightarrow> Exc ValueError | x # ys \<Rightarrow> Val (fold min ys x))"

definition py_max :: "int list \<Rightarrow> int res" where
  "py_max xs = (case xs of [] \<Rightarrow> Exc ValueError | x # ys \<Rightarrow> Val (fold max ys x))"

text \<open>\<open>s.split(sep)\<close> for a one-character separator, \<open>s.lower()\<close> and
  \<open>s.startswith(u'.')\<close>. Strings are lists of bytes here, and \<open>lower\<close> maps the
  letters of ASCII.\<close>

fun split :: "string \<Rightarrow> char \<Rightarrow> string list" where
  "split [] sep = [[]]"
| "split (c # cs) sep =
     (if c = sep then [] # split cs sep
      else case split cs sep of [] \<Rightarrow> [[c]] | w # ws \<Rightarrow> (c # w) # ws)"

definition lower :: "string \<Rightarrow> string" where
  "lower s =
     map (\<lambda>c. let n = (of_char c :: nat) in if 65 \<le> n \<and> n \<le> 90 then char_of (n + 32) else c) s"

definition startswith_dot :: "string \<Rightarrow> bool" where
  "startswith_dot s = (case s of [] \<Rightarrow> False | c # cs \<Rightarrow> c = CHR ''.'')"

section \<open>Records, weak references and the worker's state\<close>

text \<open>
  A weak reference is the address of its referent; the heap maps an address to the
  object that lives there, and a reference whose address the heap does not hold is dead.
  An object is an item (a \<open>DataDict\<close> of role values) or a data segment (a \<open>DataDict\<close>
  whose values are items, held here by their addresses).
\<close>

type_synonym ref = nat

type_synonym image = nat

datatype item_type = FileItem | SequenceItem | OtherItem

record seq_match =
  group1 :: string
  group3 :: string
  group4 :: string

record stat_result =
  st_mtime :: int
  st_size :: int

text \<open>A \<open>DirEntry\<close>: its name, and what \<open>entry.stat()\<close> gives (\<open>None\<close>: it raises \<open>OSError\<close>).\<close>

record DirEntry =
  name :: string
  stat :: "stat_result option"

record item =
  DisplayRole :: string
  EditRole :: string
  StatusTipRole :: string
  ToolTipRole :: string
  SizeHintRole :: int
  DescriptionRole :: string
  TodoCountRole :: int
  FlagsRole :: int
  ParentPathRole :: "string list"
  TypeRole :: item_type
  FramesRole :: "string list"
  SequenceRole :: "seq_match option"
  StartpathRole :: string
  EndpathRole :: string
  ThumbnailPathRole :: string
  EntryRole :: "DirEntry list"
  SortBySizeRole :: int
  SortByLastModifiedRole :: int
  FileDetailsRole :: string
  FileInfoLoaded :: bool
  FileThumbnailLoaded :: bool
  ThumbnailRole :: "image option"
  DefaultThumbnailRole :: "image option"

datatype obj = Item item | Segment "ref list"

text \<open>
  The state a worker runs in: the two attributes of \<open>BaseWorker\<close>, the heap, and what
  the worker has sent out so far: the \<open>dataReady\<close> signals emitted (oldest first), the
  messages given to \<open>common.Log.error\<close>, and the calls made to
  \<open>images.ImageCache.oiio_make_thumbnail\<close> (source and destination path).
\<close>

record state =
  interrupt :: bool
  data_queue :: "ref UniqueQueue"
  heap :: "ref \<Rightarrow> obj option"
  dataReady :: "ref list"
  errors :: "string list"
  generated :: "(string \<times> string) list"

definition BaseWorker_init :: "(ref \<Rightarrow> obj option) \<Rightarrow> state" where
  "BaseWorker_init h =
     \<lparr>interrupt = False, data_queue = UniqueQueue_init, heap = h, dataReady = [],
      errors = [], generated = []\<rparr>"

text \<open>
  \<open>a == b\<close> on weak references: one and the same reference, or two references whose
  referents are both alive and equal. \<open>ref in deque\<close> asks it of every element.
\<close>

definition weakref_eq :: "(ref \<Rightarrow> obj option) \<Rightarrow> ref \<Rightarrow> ref \<Rightarrow> bool" where
  "weakref_eq h a b =
     (a = b \<or> (case (h a, h b) of (Some x, Some y) \<Rightarrow> x = y | _ \<Rightarrow> False))"

definition contains :: "(ref \<Rightarrow> obj option) \<Rightarrow> ref list \<Rightarrow> ref \<Rightarrow> bool" where
  "contains h dq r = list_ex (\<lambda>e. weakref_eq h e r) dq"

text \<open>
  \<open>BaseThread.put(ref, force)\<close>. The argument is any Python object; only a weak
  reference passes the \<open>isinstance\<close> test.
  \<^verbatim>\<open>
        if not isinstance(ref, weakref.ref):
            raise TypeError(u'Invalid data type. Must be <type \'weakref\'>')
        try:
            self.worker.interrupt = False
            if force:
                self.worker.data_queue.put(ref)
            else:
                if ref not in self.worker.data_queue.queue:
                    self.worker.data_queue.put(ref)
        except Queue.Full:
            pass
  \<close>
  \<open>data_queue_put\<close> is the call \<open>self.worker.data_queue.put(ref)\<close> inside that \<open>try\<close>:
  \<open>block\<close>, \<open>timeout\<close> and \<open>force\<close> take their defaults.
\<close>

datatype pyobj = WeakRef ref | NotWeakRef

definition data_queue_put :: "state \<Rightarrow> ref \<Rightarrow> state res option" where
  "data_queue_put s r =
     (case put (data_queue s) r True None False of
        None \<Rightarrow> None
      | Some (Exc e) \<Rightarrow> (if e = Full then Some (Val s) else Some (Exc e))
      | Some (Val q) \<Rightarrow> Some (Val (s\<lparr>data_queue := q\<rparr>)))"

definition BaseThread_put :: "state \<Rightarrow> pyobj \<Rightarrow> bool \<Rightarrow> state res option" where
  "BaseThread_put s x force =
     (case x of
        NotWeakRef \<Rightarrow> Some (Exc TypeError)
      | WeakRef r \<Rightarrow>
          (let s1 = s\<lparr>interrupt := False\<rparr>
           in if force then data_queue_put s1 r
              else if \<not> contains (heap s1) (queue (data_queue s1)) r then data_queue_put s1 r
              else Some (Val s1)))"

text \<open>
  The decorator \<open>process\<close> around a worker's \<open>process_data\<close>; \<open>func\<close> is the decorated
  method, which gets the worker's state and the dequeued reference and returns a
  reference or \<open>None\<close>, or raises.
  \<^verbatim>\<open>
    def func_wrapper(self):
        result = None
        try:
            result = func(self, self.data_queue.get(False))
            if not result:
                return
            self.dataReady.emit(result)
            self.data_queue.task_done()
        except Queue.Empty:
            return
        except:
            common.Log.error(u'Failed whilst processing data')
        finally:
            self.interrupt = False
  \<close>
  \<open>func_body\<close> is the \<open>try\<close> block, \<open>func_wrapper\<close> adds the handlers and the
  \<open>finally\<close> clause. The result is what the call hands to its caller: \<open>Val ()\<close> when it
  returns, \<open>Exc e\<close> when an exception leaves it.
\<close>

definition func_body ::
  "(state \<Rightarrow> ref \<Rightarrow> ref option res \<times> state) \<Rightarrow> state \<Rightarrow> unit res \<times> state" where
  "func_body func s =
     (case get (data_queue s) of
        Exc e \<Rightarrow> (Exc e, s)
      | Val (r, q) \<Rightarrow>
          (case func (s\<lparr>data_queue := q\<rparr>) r of
             (Exc e, s1) \<Rightarrow> (Exc e, s1)
           | (Val None, s1) \<Rightarrow> (Val (), s1)
           | (Val (Some result), s1) \<Rightarrow>
               (let s2 = s1\<lparr>dataReady := dataReady s1 @ [result]\<rparr>
                in case task_done (data_queue s2) of
                     Exc e \<Rightarrow> (Exc e, s2)
                   | Val q2 \<Rightarrow> (Val (), s2\<lparr>data_queue := q2\<rparr>))))"

definition func_wrapper ::
  "(state \<Rightarrow> ref \<Rightarrow> ref option res \<times> state) \<Rightarrow> state \<Rightarrow> unit res \<times> state" where
  "func_wrapper func s =
     (case func_body func s of
        (Val u, s1) \<Rightarrow> (Val (), s1\<lparr>interrupt := False\<rparr>)
      | (Exc e, s1) \<Rightarrow>
          if e = Empty then (Val (), s1\<lparr>interrupt := False\<rparr>)
          else (Val (), s1\<lparr>errors := errors s1 @ [''Failed whilst processing data''],
                            interrupt := False\<rparr>))"

text \<open>
  \<open>BaseWorker.reset_queue\<close> raises the flag and takes items until \<open>get\<close> raises, and
  \<open>BaseWorker.process_data\<close> is the step of a worker that does nothing to the item.
\<close>

function drain :: "ref UniqueQueue \<Rightarrow> exc \<times> ref UniqueQueue" where
  "drain q = (case get q of Exc e \<Rightarrow> (e, q) | Val (item, q1) \<Rightarrow> drain q1)"
  by pat_completeness auto
termination
  by (relation "measure (\<lambda>q. length (queue q))")
    (auto simp: get_def priv_get_def pop_def split: if_splits list.splits)

declare drain.simps [simp del]

definition reset_queue :: "state \<Rightarrow> state" where
  "reset_queue s =
     (let s1 = s\<lparr>interrupt := True\<rparr>
      in case drain (data_queue s1) of
           (e, q) \<Rightarrow>
             if e = Empty then s1\<lparr>data_queue := q\<rparr>
             else s1\<lparr>data_queue := q, errors := errors s1 @ [''Error resetting the queue'']\<rparr>)"

definition BaseWorker_process_data :: "state \<Rightarrow> ref \<Rightarrow> ref option res \<times> state" where
  "BaseWorker_process_data s r = (if interrupt s then (Val None, s) else (Val (Some r), s))"

text \<open>
  A run of calls of \<open>BaseThread.put\<close>, each a reference and its \<open>force\<close> flag, with no
  activation of the worker in between. The run stops at the first call that raises or
  does not return.
\<close>

fun submissions :: "state \<Rightarrow> (ref \<times> bool) list \<Rightarrow> state res option" where
  "submissions s [] = Some (Val s)"
| "submissions s ((r, force) # ops) =
     (case BaseThread_put s (WeakRef r) force of
        Some (Val s1) \<Rightarrow> submissions s1 ops
      | other \<Rightarrow> other)"

section \<open>The statements of a worker's step\<close>

text \<open>
  A statement runs in a state and either goes on to the next statement with a value
  (\<open>Next\<close>), leaves the function with \<open>return v\<close> (\<open>Return\<close>), or raises (\<open>Raise\<close>).
  \<open>andthen\<close> puts two statements in a row; \<open>run\<close> is the call of a function whose body
  is the statement, \<open>d\<close> being what the call gives when the body ends with no
  \<open>return\<close>; \<open>call\<close> is a call seen from the body of the caller.
\<close>

datatype ('a, 'r) flow = Next 'a | Return 'r | Raise exc

type_synonym ('a, 'r) stmt = "state \<Rightarrow> ('a, 'r) flow \<times> state"

definition continue :: "'a \<Rightarrow> ('a, 'r) stmt" where
  "continue x s = (Next x, s)"

definition return :: "'r \<Rightarrow> ('a, 'r) stmt" where
  "return v s = (Return v, s)"

definition raise :: "exc \<Rightarrow> ('a, 'r) stmt" where
  "raise e s = (Raise e, s)"

definition andthen :: "('a, 'r) stmt \<Rightarrow> ('a \<Rightarrow> ('b, 'r) stmt) \<Rightarrow> ('b, 'r) stmt" where
  "andthen m k s =
     (case m s of
        (Next x, s1) \<Rightarrow> k x s1
      | (Return v, s1) \<Rightarrow> (Return v, s1)
      | (Raise e, s1) \<Rightarrow> (Raise e, s1))"

definition run :: "'r \<Rightarrow> (unit, 'r) stmt \<Rightarrow> state \<Rightarrow> 'r res \<times> state" where
  "run d m s =
     (case m s of
        (Next x, s1) \<Rightarrow> (Val d, s1)
      | (Return v, s1) \<Rightarrow> (Val v, s1)
      | (Raise e, s1) \<Rightarrow> (Exc e, s1))"

definition call :: "(state \<Rightarrow> 'a res \<times> state) \<Rightarrow> ('a, 'r) stmt" where
  "call f s = (case f s of (Val v, s1) \<Rightarrow> (Next v, s1) | (Exc e, s1) \<Rightarrow> (Raise e, s1))"

definition of_res :: "'a res \<Rightarrow> ('a, 'r) stmt" where
  "of_res x s = (case x of Val v \<Rightarrow> (Next v, s) | Exc e \<Rightarrow> (Raise e, s))"

text \<open>
  What \<open>ref()\<close> gives. A queue holds references of one kind: the workers that take
  items resolve a reference with \<open>item_at\<close>, the folder worker resolves the reference it
  is given with \<open>segment_at\<close>, and a reference of the other kind reads as a dead one.
\<close>

definition item_at :: "state \<Rightarrow> ref \<Rightarrow> item option" where
  "item_at s r = (case heap s r of Some (Item it) \<Rightarrow> Some it | _ \<Rightarrow> None)"

definition segment_at :: "state \<Rightarrow> ref \<Rightarrow> ref list option" where
  "segment_at s r = (case heap s r of Some (Segment vs) \<Rightarrow> Some vs | _ \<Rightarrow> None)"

text \<open>
  \<open>if not ref(): return v\<close>, and the same with \<open>or self.interrupt\<close>; past the test the
  statement hands on the item that \<open>ref()\<close> gives. \<open>getitem\<close> is \<open>ref()[...]\<close> with no
  test before it, \<open>setitem\<close> is \<open>ref()[role] = value\<close>: on a dead reference \<open>ref()\<close> is
  \<open>None\<close> and the subscript raises \<open>TypeError\<close>.
\<close>

definition if_not_ref :: "'r \<Rightarrow> ref \<Rightarrow> (item, 'r) stmt" where
  "if_not_ref v r s = (case item_at s r of None \<Rightarrow> (Return v, s) | Some it \<Rightarrow> (Next it, s))"

definition if_not_ref_or_interrupt :: "'r \<Rightarrow> ref \<Rightarrow> (item, 'r) stmt" where
  "if_not_ref_or_interrupt v r s =
     (case item_at s r of
        None \<Rightarrow> (Return v, s)
      | Some it \<Rightarrow> if interrupt s then (Return v, s) else (Next it, s))"

definition getitem :: "ref \<Rightarrow> (item, 'r) stmt" where
  "getitem r s = (case item_at s r of None \<Rightarrow> (Raise TypeError, s) | Some it \<Rightarrow> (Next it, s))"

definition setitem :: "ref \<Rightarrow> (item \<Rightarrow> item) \<Rightarrow> (unit, 'r) stmt" where
  "setitem r f s =
     (case item_at s r of
        None \<Rightarrow> (Raise TypeError, s)
      | Some it \<Rightarrow> (Next (), s\<lparr>heap := (heap s)(r \<mapsto> Item (f it))\<rparr>))"

definition Log_error :: "string \<Rightarrow> (unit, 'r) stmt" where
  "Log_error msg s = (Next (), s\<lparr>errors := errors s @ [msg]\<rparr>)"

section \<open>What the workers call outside \<open>threads.py\<close>\<close>

text \<open>
  The modules \<open>bookmarks.common\<close>, \<open>bookmarks.bookmark_db\<close>, \<open>bookmarks.images\<close> and
  \<open>bookmarks.defaultpaths\<close> are not among the sources, and Qt and the file system are
  outside the program: what the workers call there is a parameter of the model.

  A database connection, as \<open>bookmark_db.get_db\<close> gives it: \<open>db.value(k, u'description')\<close>,
  \<open>db.value(k, u'notes')\<close> and \<open>db.value(k, u'flags')\<close> (\<open>None\<close> where there is no value)
  and \<open>db.thumbnail_path(k)\<close>.
\<close>

record db =
  value_description :: "string \<Rightarrow> string option"
  value_notes :: "string \<Rightarrow> string option"
  value_flags :: "string \<Rightarrow> int option"
  thumbnail_path :: "string \<Rightarrow> string"

text \<open>
  \<^item> \<open>get_db server job root\<close>: \<open>bookmark_db.get_db(QtCore.QModelIndex(), server=..., job=...,
    root=...)\<close>, \<open>None\<close> when there is no database;
  \<^item> \<open>proxy_path\<close>, \<open>get_ranges\<close>, \<open>byte_to_string\<close>, \<open>is_collapsed\<close> (the truth value of
    its result), \<open>get_sequence_startpath\<close>, \<open>walk\<close> (the entries the generator yields, in
    order) and the constant \<open>MarkedAsArchived\<close>: of \<open>bookmarks.common\<close>;
  \<^item> \<open>loads_notes v\<close>: \<open>json.loads(base64.b64decode(v))\<close> read as the list of the notes'
    \<open>text\<close> and \<open>checked\<close> values, \<open>None\<close> when decoding or reading a note raises;
  \<^item> \<open>toString mtime format\<close>: \<open>common.qlast_modified(mtime).toString(format)\<close>;
  \<^item> \<open>file_exists path\<close> and \<open>file_size path\<close>: \<open>QtCore.QFileInfo(path).exists()\<close> and
    \<open>.size()\<close>;
  \<^item> \<open>ImageCache_get path height\<close>: \<open>images.ImageCache.get(path, height, overwrite=True)\<close>,
    \<open>None\<close> for a result that is not an image;
  \<^item> \<open>get_extensions\<close>: \<open>defaultpaths.get_extensions(defaultpaths.OpenImageIOFilter)\<close>;
  \<^item> \<open>oiio_make_thumbnail source dest\<close>: the result of
    \<open>images.ImageCache.oiio_make_thumbnail(source, dest, common.THUMBNAIL_IMAGE_SIZE)\<close>,
    \<open>None\<close> when the call raises.
\<close>

record env =
  get_db :: "string \<Rightarrow> string \<Rightarrow> string \<Rightarrow> db option"
  proxy_path :: "item \<Rightarrow> string"
  loads_notes :: "string \<Rightarrow> (string \<times> bool) list option"
  get_ranges :: "int list \<Rightarrow> nat \<Rightarrow> string"
  toString :: "int \<Rightarrow> string \<Rightarrow> string"
  byte_to_string :: "int \<Rightarrow> string"
  MarkedAsArchived :: int
  file_exists :: "string \<Rightarrow> bool"
  file_size :: "string \<Rightarrow> int"
  ImageCache_get :: "string \<Rightarrow> int \<Rightarrow> image option"
  get_extensions :: "string list"
  is_collapsed :: "string \<Rightarrow> bool"
  get_sequence_startpath :: "string \<Rightarrow> string"
  oiio_make_thumbnail :: "string \<Rightarrow> string \<Rightarrow> bool option"
  walk :: "string \<Rightarrow> DirEntry list"

section \<open>The metadata worker: \<open>InfoWorker\<close>\<close>

text \<open>
  \<open>InfoWorker.process_file_information(ref)\<close>, block by block. First the block under
  \<open>with db.transactions()\<close>: the description, the count of the notes that have a text
  and are not checked, and the flags.
\<close>

definition load_description :: "db \<Rightarrow> string \<Rightarrow> ref \<Rightarrow> (unit, ref option) stmt" where
  "load_description d k r =
     (case value_description d k of
        None \<Rightarrow> continue ()
      | Some v \<Rightarrow>
          if v = [] then continue ()
          else andthen (if_not_ref None r) (\<lambda>it. setitem r (\<lambda>it. it\<lparr>DescriptionRole := v\<rparr>)))"

definition count_notes :: "env \<Rightarrow> db \<Rightarrow> string \<Rightarrow> (int, ref option) stmt" where
  "count_notes E d k =
     (case value_notes d k of
        None \<Rightarrow> continue 0
      | Some v \<Rightarrow>
          if v = [] then continue 0
          else
            (case loads_notes E v of
               None \<Rightarrow> andthen (Log_error ''Could not read notes'') (\<lambda>u. continue 0)
             | Some ns \<Rightarrow>
                 continue (int (length (filter (\<lambda>n. fst n \<noteq> [] \<and> \<not> snd n) ns)))))"

definition ItemIsEditable :: int where
  "ItemIsEditable = 2"

definition ItemIsDragEnabled :: int where
  "ItemIsDragEnabled = 4"

definition load_database :: "env \<Rightarrow> db \<Rightarrow> ref \<Rightarrow> (unit, ref option) stmt" where
  "load_database E d r =
     andthen (if_not_ref None r) (\<lambda>it0.
     andthen (continue (proxy_path E it0)) (\<lambda>k.
     andthen (load_description d k r) (\<lambda>u.
     andthen (count_notes E d k) (\<lambda>count.
     andthen (if_not_ref None r) (\<lambda>it1.
     andthen (setitem r (\<lambda>it. it\<lparr>TodoCountRole := count\<rparr>)) (\<lambda>u.
     andthen (if_not_ref None r) (\<lambda>it2.
     andthen (continue (FlagsRole it2 OR ItemIsEditable OR ItemIsDragEnabled)) (\<lambda>flags0.
     andthen (continue (case value_flags d k of
                          None \<Rightarrow> flags0
                        | Some v \<Rightarrow> if v = 0 then flags0 else flags0 OR v)) (\<lambda>flags.
     andthen (if_not_ref None r) (\<lambda>it3.
     setitem r (\<lambda>it. it\<lparr>FlagsRole := flags\<rparr>)))))))))))"

text \<open>
  The loop over the entries of a sequence: the latest modification time, and the sizes
  added to \<open>SortBySizeRole\<close>.
  \<^verbatim>\<open>
                for entry in er:
                    stat = entry.stat()
                    mtime = stat.st_mtime if stat.st_mtime > mtime else mtime
                    if not ref():
                        return None
                    ref()[common.SortBySizeRole] += stat.st_size
  \<close>
\<close>

fun entries_loop :: "ref \<Rightarrow> DirEntry list \<Rightarrow> int \<Rightarrow> (int, ref option) stmt" where
  "entries_loop r [] mtime = continue mtime"
| "entries_loop r (entry # er) mtime =
     (case stat entry of
        None \<Rightarrow> raise OSError
      | Some st \<Rightarrow>
          andthen (continue (if st_mtime st > mtime then st_mtime st else mtime)) (\<lambda>mtime1.
          andthen (if_not_ref None r) (\<lambda>it0.
          andthen (setitem r (\<lambda>it. it\<lparr>SortBySizeRole := SortBySizeRole it + st_size st\<rparr>)) (\<lambda>u.
          entries_loop r er mtime1))))"

text \<open>The date and size part of a detail string, from \<open>mtime.toString(u'dd')\<close> on.\<close>

definition date_and_size :: "env \<Rightarrow> int \<Rightarrow> int \<Rightarrow> string" where
  "date_and_size E mtime nbytes =
     toString E mtime ''dd'' @ ''/'' @ toString E mtime ''MM'' @ ''/'' @
     toString E mtime ''yyyy'' @ '' '' @ toString E mtime ''hh'' @ '':'' @
     toString E mtime ''mm'' @ '';'' @ byte_to_string E nbytes"

definition sequence_details :: "env \<Rightarrow> ref \<Rightarrow> int list \<Rightarrow> (unit, ref option) stmt" where
  "sequence_details E r intframes =
     andthen (if_not_ref None r) (\<lambda>it0.
     if EntryRole it0 = [] then continue ()
     else
       andthen (entries_loop r (EntryRole it0) 0) (\<lambda>mtime.
       andthen (if_not_ref None r) (\<lambda>it1.
       andthen (setitem r (\<lambda>it. it\<lparr>SortByLastModifiedRole := mtime\<rparr>)) (\<lambda>u.
       andthen (if_not_ref None r) (\<lambda>it2.
       andthen (continue (unicode (int (length intframes)) @ ''f;'' @
                          date_and_size E mtime (SortBySizeRole it2))) (\<lambda>info_string.
       andthen (if_not_ref None r) (\<lambda>it3.
       setitem r (\<lambda>it. it\<lparr>FileDetailsRole := info_string\<rparr>))))))))"

text \<open>
  The block for a sequence item. \<open>frs[0]\<close> raises \<open>IndexError\<close> on an empty list of
  frames, \<open>seq.group(1)\<close> raises \<open>AttributeError\<close> when \<open>SequenceRole\<close> holds no match.
\<close>

definition first_frame :: "string list \<Rightarrow> (string, 'r) stmt" where
  "first_frame frs = (case frs of [] \<Rightarrow> raise IndexError | f # fs \<Rightarrow> continue f)"

definition the_match :: "seq_match option \<Rightarrow> (seq_match, 'r) stmt" where
  "the_match m = (case m of None \<Rightarrow> raise AttributeError | Some seq \<Rightarrow> continue seq)"

definition load_sequence :: "env \<Rightarrow> db \<Rightarrow> ref \<Rightarrow> (unit, ref option) stmt" where
  "load_sequence E d r =
     andthen (if_not_ref None r) (\<lambda>it0.
     andthen (of_res (int_list (FramesRole it0))) (\<lambda>intframes.
     andthen (first_frame (FramesRole it0)) (\<lambda>f0.
     andthen (continue (length f0)) (\<lambda>padding.
     andthen (continue (get_ranges E intframes padding)) (\<lambda>rangestring.
     andthen (if_not_ref None r) (\<lambda>it1.
     andthen (the_match (SequenceRole it1)) (\<lambda>seq.
     andthen (of_res (py_min intframes)) (\<lambda>lo.
     andthen (continue (group1 seq @ zfill (unicode lo) padding @ group3 seq @ ''.'' @ group4 seq))
       (\<lambda>startpath.
     andthen (of_res (py_max intframes)) (\<lambda>hi.
     andthen (continue (group1 seq @ zfill (unicode hi) padding @ group3 seq @ ''.'' @ group4 seq))
       (\<lambda>endpath.
     andthen (continue (group1 seq @ ''['' @ rangestring @ '']'' @ group3 seq @ ''.'' @ group4 seq))
       (\<lambda>seqpath.
     andthen (continue (group1 seq @ ''[0]'' @ group3 seq @ ''.'' @ group4 seq)) (\<lambda>thumb_k.
     andthen (continue (last (split seqpath CHR ''/''))) (\<lambda>seqname.
     andthen (if_not_ref None r) (\<lambda>it2.
     andthen (setitem r (\<lambda>it. it\<lparr>StartpathRole := startpath\<rparr>)) (\<lambda>u.
     andthen (if_not_ref None r) (\<lambda>it3.
     andthen (setitem r (\<lambda>it. it\<lparr>EndpathRole := endpath\<rparr>)) (\<lambda>u.
     andthen (if_not_ref None r) (\<lambda>it4.
     andthen (setitem r (\<lambda>it. it\<lparr>StatusTipRole := seqpath\<rparr>)) (\<lambda>u.
     andthen (if_not_ref None r) (\<lambda>it5.
     andthen (setitem r (\<lambda>it. it\<lparr>ToolTipRole := seqpath\<rparr>)) (\<lambda>u.
     andthen (if_not_ref None r) (\<lambda>it6.
     andthen (setitem r (\<lambda>it. it\<lparr>DisplayRole := seqname\<rparr>)) (\<lambda>u.
     andthen (if_not_ref None r) (\<lambda>it7.
     andthen (setitem r (\<lambda>it. it\<lparr>EditRole := seqname\<rparr>)) (\<lambda>u.
     andthen (if_not_ref None r) (\<lambda>it8.
     andthen (setitem r (\<lambda>it. it\<lparr>ThumbnailPathRole := thumbnail_path d thumb_k\<rparr>)) (\<lambda>u.
     sequence_details E r intframes))))))))))))))))))))))))))))"

text \<open>
  The block for a single file. The three subscripts after \<open>er[0].stat()\<close> come with no
  test of \<open>ref()\<close> before them.
\<close>

definition load_file :: "env \<Rightarrow> db \<Rightarrow> ref \<Rightarrow> (unit, ref option) stmt" where
  "load_file E d r =
     andthen (if_not_ref None r) (\<lambda>it0.
     andthen
       (case EntryRole it0 of
          [] \<Rightarrow> continue ()
        | entry # er \<Rightarrow>
            (case stat entry of
               None \<Rightarrow> raise OSError
             | Some st \<Rightarrow>
                 andthen (setitem r (\<lambda>it. it\<lparr>SortByLastModifiedRole := st_mtime st\<rparr>)) (\<lambda>u.
                 andthen (setitem r (\<lambda>it. it\<lparr>SortBySizeRole := st_size st\<rparr>)) (\<lambda>u.
                 andthen (getitem r) (\<lambda>it1.
                 andthen (continue (date_and_size E (st_mtime st) (SortBySizeRole it1)))
                   (\<lambda>info_string.
                 andthen (if_not_ref None r) (\<lambda>it2.
                 setitem r (\<lambda>it. it\<lparr>FileDetailsRole := info_string\<rparr>))))))))
       (\<lambda>u.
     andthen (if_not_ref None r) (\<lambda>it3.
     andthen (getitem r) (\<lambda>it4.
     setitem r (\<lambda>it. it\<lparr>ThumbnailPathRole := thumbnail_path d (StatusTipRole it4)\<rparr>)))))"

text \<open>
  The whole of \<open>process_file_information\<close>. \<open>pp[0]\<close>, \<open>pp[1]\<close> and \<open>pp[2]\<close> raise
  \<open>IndexError\<close> on a parent path of fewer than three parts.
\<close>

definition parent_path :: "string list \<Rightarrow> (string \<times> string \<times> string, 'r) stmt" where
  "parent_path pp =
     (case pp of
        server # job # root # rest \<Rightarrow> continue (server, job, root)
      | _ \<Rightarrow> raise IndexError)"

definition process_file_information :: "env \<Rightarrow> ref \<Rightarrow> state \<Rightarrow> ref option res \<times> state" where
  "process_file_information E r =
     run None
      (andthen (if_not_ref None r) (\<lambda>it0.
       if FileInfoLoaded it0 then return (Some r)
       else
         andthen (if_not_ref None r) (\<lambda>it1.
         andthen (parent_path (ParentPathRole it1)) (\<lambda>pp.
         case get_db E (fst pp) (fst (snd pp)) (snd (snd pp)) of
           None \<Rightarrow> return None
         | Some d \<Rightarrow>
             andthen (load_database E d r) (\<lambda>u.
             andthen (if_not_ref None r) (\<lambda>it2.
             andthen (if TypeRole it2 = SequenceItem then load_sequence E d r else continue ())
               (\<lambda>u.
             andthen (if_not_ref None r) (\<lambda>it3.
             andthen (if TypeRole it3 = FileItem then load_file E d r else continue ()) (\<lambda>u.
             andthen (if_not_ref None r) (\<lambda>it4.
             andthen (setitem r (\<lambda>it. it\<lparr>FileInfoLoaded := True\<rparr>)) (\<lambda>u.
             andthen (if_not_ref None r) (\<lambda>it5.
             return (Some r)))))))))))))"

text \<open>
  \<open>InfoWorker.process_data\<close>. The result of \<open>process_file_information\<close> is bound to
  \<open>ref\<close> and then called: when it is \<open>None\<close> the call raises \<open>TypeError\<close>.
  \<^verbatim>\<open>
        if not ref() or self.interrupt:
            return None
        ref = self.process_file_information(ref)
        if not ref():
            return None
        return ref
  \<close>
\<close>

definition InfoWorker_process_data :: "env \<Rightarrow> state \<Rightarrow> ref \<Rightarrow> ref option res \<times> state" where
  "InfoWorker_process_data E s r =
     run None
      (andthen (if_not_ref_or_interrupt None r) (\<lambda>it0.
       andthen (call (process_file_information E r)) (\<lambda>result.
       case result of
         None \<Rightarrow> raise TypeError
       | Some r1 \<Rightarrow> andthen (if_not_ref None r1) (\<lambda>it1. return (Some r1))))) s"

section \<open>The thumbnail worker: \<open>ThumbnailWorker\<close>\<close>

text \<open>
  \<open>ThumbnailWorker.process_thumbnail(ref)\<close>. The \<open>try\<close> block ends with a returned
  value or an exception, and with the local names \<open>source\<close> and \<open>dest\<close> bound or not
  (\<open>None\<close>: not bound). The call of the generator is recorded in \<open>generated\<close>.
  \<^verbatim>\<open>
            if QtCore.QFileInfo(source).size() >= pow(1024, 3) * 2: # 1GB
                return False

            if not images.ImageCache.oiio_make_thumbnail(source, dest, common.THUMBNAIL_IMAGE_SIZE):
                return False
  \<close>
\<close>

record try_result =
  outcome :: "bool res"
  source :: "string option"
  dest :: "string option"

definition size_ceiling :: int where
  "size_ceiling = 1024 ^ 3 * 2"

definition generate :: "env \<Rightarrow> ref \<Rightarrow> string \<Rightarrow> string \<Rightarrow> state \<Rightarrow> bool res \<times> state" where
  "generate E r src dst s =
     (let s1 = s\<lparr>generated := generated s @ [(src, dst)]\<rparr>
      in case oiio_make_thumbnail E src dst of
           None \<Rightarrow> (Exc RuntimeError, s1)
         | Some made \<Rightarrow>
             if \<not> made then (Val False, s1)
             else
               (case item_at s1 r of
                  None \<Rightarrow> (Val False, s1)
                | Some it \<Rightarrow>
                    (let img = ImageCache_get E (ThumbnailPathRole it) (SizeHintRole it)
                     in case item_at s1 r of
                          None \<Rightarrow> (Val False, s1)
                        | Some it1 \<Rightarrow>
                            (let s2 = s1\<lparr>heap :=
                                   (heap s1)(r \<mapsto> Item (it1\<lparr>ThumbnailRole := img\<rparr>))\<rparr>
                             in case item_at s2 r of
                                  None \<Rightarrow> (Val False, s2)
                                | Some it2 \<Rightarrow> (Val True, s2)))))"

definition try_block :: "env \<Rightarrow> ref \<Rightarrow> state \<Rightarrow> try_result \<times> state" where
  "try_block E r s =
     (case item_at s r of
        None \<Rightarrow> (\<lparr>outcome = Val False, source = None, dest = None\<rparr>, s)
      | Some it \<Rightarrow>
          (let src0 = StatusTipRole it;
               src = (if is_collapsed E src0 then get_sequence_startpath E src0 else src0)
           in case item_at s r of
                None \<Rightarrow> (\<lparr>outcome = Val False, source = Some src, dest = None\<rparr>, s)
              | Some it1 \<Rightarrow>
                  (let dst = ThumbnailPathRole it1
                   in if size_ceiling \<le> file_size E src
                      then (\<lparr>outcome = Val False, source = Some src, dest = Some dst\<rparr>, s)
                      else (case generate E r src dst s of
                              (out, s1) \<Rightarrow>
                                (\<lparr>outcome = out, source = Some src, dest = Some dst\<rparr>, s1)))))"

text \<open>
  The handler and the \<open>finally\<close> clause. After the handler the function ends with no
  \<open>return\<close>, which gives \<open>None\<close>; \<open>cache.invalidate(source, ...)\<close> and
  \<open>cache.invalidate(dest, ...)\<close> raise \<open>UnboundLocalError\<close> on a name that is not bound.
  \<^verbatim>\<open>
        except:
            if ref():
                ref()[common.ThumbnailRole] = ref()[common.DefaultThumbnailRole]
            common.Log.error('Failed to generate thumbnail')
        finally:
            if ref():
                ref()[common.FileThumbnailLoaded] = True
            cache.invalidate(source, force=True)
            cache.invalidate(dest, force=True)
  \<close>
\<close>

definition except_clause :: "ref \<Rightarrow> state \<Rightarrow> state" where
  "except_clause r s =
     (let s1 = (case item_at s r of
                  None \<Rightarrow> s
                | Some it \<Rightarrow>
                    s\<lparr>heap := (heap s)(r \<mapsto> Item (it\<lparr>ThumbnailRole := DefaultThumbnailRole it\<rparr>))\<rparr>)
      in s1\<lparr>errors := errors s1 @ [''Failed to generate thumbnail'']\<rparr>)"

definition finally_clause :: "ref \<Rightarrow> state \<Rightarrow> state" where
  "finally_clause r s =
     (case item_at s r of
        None \<Rightarrow> s
      | Some it \<Rightarrow> s\<lparr>heap := (heap s)(r \<mapsto> Item (it\<lparr>FileThumbnailLoaded := True\<rparr>))\<rparr>)"

definition process_thumbnail :: "env \<Rightarrow> ref \<Rightarrow> state \<Rightarrow> bool option res \<times> state" where
  "process_thumbnail E r s =
     (case try_block E r s of
        (t, s1) \<Rightarrow>
          (let (result, s2) =
                 (case outcome t of
                    Val b \<Rightarrow> (Some b, s1)
                  | Exc e \<Rightarrow> (None, except_clause r s1));
               s3 = finally_clause r s2
           in if source t = None \<or> dest t = None then (Exc UnboundLocalError, s3)
              else (Val result, s3)))"

text \<open>
  \<open>ThumbnailWorker.process_data\<close>. The wait for the file information sleeps between
  its tests; nothing but the worker changes the state here, so the wait ends at once or
  after its 21 rounds.
  \<^verbatim>\<open>
        n = 0
        while ref() and not ref()[common.FileInfoLoaded]:
            if n > 20:
                return None
            if not ref() or self.interrupt:
                return None
            time.sleep(0.1)
            n += 1
  \<close>
\<close>

function wait_for_info :: "ref \<Rightarrow> nat \<Rightarrow> (unit, ref option) stmt" where
  "wait_for_info r n s =
     (case item_at s r of
        None \<Rightarrow> (Next (), s)
      | Some it \<Rightarrow>
          if FileInfoLoaded it then (Next (), s)
          else if n > 20 then (Return None, s)
          else (case item_at s r of
                  None \<Rightarrow> (Return None, s)
                | Some it1 \<Rightarrow>
                    if interrupt s then (Return None, s) else wait_for_info r (n + 1) s))"
  by pat_completeness auto
termination
  by (relation "measure (\<lambda>(r, n, s). 21 - n)") auto

declare wait_for_info.simps [simp del]

definition load_cached :: "ref \<Rightarrow> image \<Rightarrow> (unit, ref option) stmt" where
  "load_cached r img =
     andthen (if_not_ref_or_interrupt None r) (\<lambda>it0.
     andthen (setitem r (\<lambda>it. it\<lparr>ThumbnailRole := Some img\<rparr>)) (\<lambda>u.
     andthen (if_not_ref_or_interrupt None r) (\<lambda>it1.
     andthen (setitem r (\<lambda>it. it\<lparr>FileThumbnailLoaded := True\<rparr>)) (\<lambda>u.
     andthen (if_not_ref_or_interrupt None r) (\<lambda>it2.
     return (Some r))))))"

definition make_thumbnail :: "env \<Rightarrow> ref \<Rightarrow> (unit, ref option) stmt" where
  "make_thumbnail E r =
     andthen (if_not_ref_or_interrupt None r) (\<lambda>it0.
     andthen (setitem r (\<lambda>it. it\<lparr>FileThumbnailLoaded := False\<rparr>)) (\<lambda>u.
     andthen (call (process_thumbnail E r)) (\<lambda>made.
     if made \<noteq> Some True then return None
     else
       andthen (if_not_ref_or_interrupt None r) (\<lambda>it1.
       andthen (setitem r (\<lambda>it. it\<lparr>FileThumbnailLoaded := True\<rparr>)) (\<lambda>u.
       andthen (if_not_ref_or_interrupt None r) (\<lambda>it2.
       return (Some r)))))))"

definition ThumbnailWorker_process_data :: "env \<Rightarrow> state \<Rightarrow> ref \<Rightarrow> ref option res \<times> state" where
  "ThumbnailWorker_process_data E s r =
     run None
      (andthen (if_not_ref_or_interrupt None r) (\<lambda>it0.
       if FlagsRole it0 AND MarkedAsArchived E \<noteq> 0 then return None
       else
         andthen (wait_for_info r 0) (\<lambda>u.
         andthen (if_not_ref_or_interrupt None r) (\<lambda>it1.
         if FileThumbnailLoaded it1 then return None
         else
           andthen (if_not_ref_or_interrupt None r) (\<lambda>it2.
           andthen (continue (ThumbnailPathRole it2)) (\<lambda>thumbnail_path.
           andthen (if_not_ref_or_interrupt None r) (\<lambda>it3.
           andthen (continue (SizeHintRole it3)) (\<lambda>height.
           andthen (if_not_ref_or_interrupt None r) (\<lambda>it4.
           andthen (continue (lower (last (split (StatusTipRole it4) CHR ''.'')))) (\<lambda>ext.
           if file_exists E thumbnail_path then
             (case ImageCache_get E thumbnail_path height of
                None \<Rightarrow> return None
              | Some img \<Rightarrow> load_cached r img)
           else if lower ext \<notin> set (get_extensions E) then return None
           else make_thumbnail E r)))))))))) s"

section \<open>The folder worker: \<open>TaskFolderWorker\<close>\<close>

text \<open>
  The reference the worker is given is one to a data segment; \<open>not ref()\<close> holds of a
  dead reference and of an empty segment. The sub-records are the values of the segment.
  \<^verbatim>\<open>
            count = 0
            for entry in common.walk(_ref()[QtCore.Qt.StatusTipRole]):
                if not ref() or not _ref() or self.interrupt:
                    return None
                if entry.name.startswith(u'.'):
                    continue
                count += 1
                if count > 999:
                    break
  \<close>
\<close>

definition not_segment :: "state \<Rightarrow> ref \<Rightarrow> bool" where
  "not_segment s r = (case segment_at s r of None \<Rightarrow> True | Some vs \<Rightarrow> vs = [])"

definition if_not_segment_or_interrupt :: "ref \<Rightarrow> (unit, ref option) stmt" where
  "if_not_segment_or_interrupt r s =
     (if not_segment s r \<or> interrupt s then (Return None, s) else (Next (), s))"

definition if_not_refs_or_interrupt :: "ref \<Rightarrow> ref \<Rightarrow> (unit, ref option) stmt" where
  "if_not_refs_or_interrupt r c s =
     (if not_segment s r \<or> item_at s c = None \<or> interrupt s then (Return None, s)
      else (Next (), s))"

definition values_of :: "ref \<Rightarrow> (ref list, ref option) stmt" where
  "values_of r s =
     (case segment_at s r of None \<Rightarrow> (Raise AttributeError, s) | Some vs \<Rightarrow> (Next vs, s))"

definition emit_dataReady :: "ref \<Rightarrow> (unit, ref option) stmt" where
  "emit_dataReady c s = (Next (), s\<lparr>dataReady := dataReady s @ [c]\<rparr>)"

fun count_loop :: "ref \<Rightarrow> ref \<Rightarrow> DirEntry list \<Rightarrow> int \<Rightarrow> (int, ref option) stmt" where
  "count_loop r c [] count = continue count"
| "count_loop r c (entry # entries) count =
     andthen (if_not_refs_or_interrupt r c) (\<lambda>u.
     if startswith_dot (name entry) then count_loop r c entries count
     else if count + 1 > 999 then continue (count + 1)
     else count_loop r c entries (count + 1))"

fun folders_loop :: "env \<Rightarrow> ref \<Rightarrow> ref list \<Rightarrow> (unit, ref option) stmt" where
  "folders_loop E r [] = continue ()"
| "folders_loop E r (c # cs) =
     andthen (if_not_segment_or_interrupt r) (\<lambda>u.
     andthen (getitem c) (\<lambda>it0.
     andthen (count_loop r c (walk E (StatusTipRole it0)) 0) (\<lambda>count.
     andthen (if_not_refs_or_interrupt r c) (\<lambda>u.
     andthen (setitem c (\<lambda>it. it\<lparr>TodoCountRole := count\<rparr>)) (\<lambda>u.
     andthen (if_not_refs_or_interrupt r c) (\<lambda>u.
     andthen (emit_dataReady c) (\<lambda>u.
     folders_loop E r cs)))))))"

definition TaskFolderWorker_process_data :: "env \<Rightarrow> state \<Rightarrow> ref \<Rightarrow> ref option res \<times> state" where
  "TaskFolderWorker_process_data E s r =
     run None
      (andthen (if_not_segment_or_interrupt r) (\<lambda>u.
       andthen (values_of r) (\<lambda>vals.
       andthen (folders_loop E r vals) (\<lambda>u.
       return None)))) s"

section \<open>Sample data\<close>

text \<open>A worker over an empty heap whose queue holds the given references.\<close>

definition sample_worker :: "ref list \<Rightarrow> state" where
  "sample_worker dq =
     (BaseWorker_init (\<lambda>a. None))\<lparr>data_queue :=
        \<lparr>maxsize = 0, queue = dq, unfinished_tasks = int (length dq)\<rparr>\<rparr>"

text \<open>
  A sequence item of four frames with two entries on disk, a database with a description
  for every key, the collaborators of a worker, a worker over a given heap, and a heap
  whose one item is already marked as loaded.
\<close>

definition sample_entries :: "DirEntry list" where
  "sample_entries =
     [\<lparr>name = ''shot.0001.exr'', stat = Some \<lparr>st_mtime = 100, st_size = 10\<rparr>\<rparr>,
      \<lparr>name = ''shot.0002.exr'', stat = Some \<lparr>st_mtime = 300, st_size = 20\<rparr>\<rparr>]"

definition sample_item :: item where
  "sample_item =
     \<lparr>DisplayRole = ''shot.0001.exr'', EditRole = ''shot.0001.exr'',
      StatusTipRole = ''/jobs/shot.0001.exr'', ToolTipRole = ''/jobs/shot.0001.exr'',
      SizeHintRole = 54, DescriptionRole = [], TodoCountRole = 0, FlagsRole = 1,
      ParentPathRole = [''server'', ''job'', ''root''], TypeRole = SequenceItem,
      FramesRole = [''0001'', ''0002'', ''0003'', ''0005''],
      SequenceRole = Some \<lparr>group1 = ''/jobs/shot.'', group3 = [], group4 = ''exr''\<rparr>,
      StartpathRole = [], EndpathRole = [], ThumbnailPathRole = [],
      EntryRole = sample_entries, SortBySizeRole = 0, SortByLastModifiedRole = 0,
      FileDetailsRole = [], FileInfoLoaded = False, FileThumbnailLoaded = False,
      ThumbnailRole = Some 7, DefaultThumbnailRole = Some 7\<rparr>"

definition sample_db :: db where
  "sample_db =
     \<lparr>value_description = (\<lambda>k. Some ''a shot''), value_notes = (\<lambda>k. None),
      value_flags = (\<lambda>k. None), thumbnail_path = (\<lambda>k. ''/thumbs/'' @ k)\<rparr>"

definition sample_env :: env where
  "sample_env =
     \<lparr>get_db = (\<lambda>server job root. Some sample_db), proxy_path = StatusTipRole,
      loads_notes = (\<lambda>v. None), get_ranges = (\<lambda>frames padding. ''1-3,5''),
      toString = (\<lambda>mtime format. format), byte_to_string = (\<lambda>n. ''30B''),
      MarkedAsArchived = 512, file_exists = (\<lambda>path. False), file_size = (\<lambda>path. 1024),
      ImageCache_get = (\<lambda>path height. Some 9), get_extensions = [''exr'', ''jpg''],
      is_collapsed = (\<lambda>path. False), get_sequence_startpath = (\<lambda>path. path),
      oiio_make_thumbnail = (\<lambda>source dest. Some True), walk = (\<lambda>path. [])\<rparr>"

definition sample_state :: "(ref \<Rightarrow> obj option) \<Rightarrow> ref list \<Rightarrow> state" where
  "sample_state h dq = (sample_worker dq)\<lparr>heap := h\<rparr>"

definition loaded_heap :: "ref \<Rightarrow> obj option" where
  "loaded_heap = Map.empty(1 \<mapsto> Item (sample_item\<lparr>FileInfoLoaded := True\<rparr>))"

text \<open>
  Collaborators with no database, and a heap of two items of which the second is loaded.
\<close>

definition no_db_env :: env where
  "no_db_env = sample_env\<lparr>get_db := (\<lambda>server job root. None)\<rparr>"

definition two_items_heap :: "ref \<Rightarrow> obj option" where
  "two_items_heap =
     Map.empty(1 \<mapsto> Item sample_item, 2 \<mapsto> Item (sample_item\<lparr>FileInfoLoaded := True\<rparr>))"

text \<open>
  A task folder of one sub-record, and collaborators whose walk of any folder gives a
  thousand files, none of them hidden.
\<close>

definition folder_heap :: "ref \<Rightarrow> obj option" where
  "folder_heap = Map.empty(1 \<mapsto> Segment [2], 2 \<mapsto> Item sample_item)"

definition thousand_env :: env where
  "thousand_env = sample_env\<lparr>walk := (\<lambda>path. replicate 1000 \<lparr>name = ''a.txt'', stat = None\<rparr>)\<rparr>"

text \<open>
  Collaborators for which every file is of two gibibytes, a heap whose item is marked as
  archived, and one whose item shows another image than its default one.
\<close>

definition oversize_env :: env where
  "oversize_env = sample_env\<lparr>file_size := (\<lambda>path. 2147483648)\<rparr>"

definition archived_heap :: "ref \<Rightarrow> obj option" where
  "archived_heap = Map.empty(1 \<mapsto> Item (sample_item\<lparr>FlagsRole := 513, FileInfoLoaded := True\<rparr>))"

definition spinner_heap :: "ref \<Rightarrow> obj option" where
  "spinner_heap =
     Map.empty(1 \<mapsto> Item (sample_item\<lparr>FileInfoLoaded := True, ThumbnailRole := Some 3\<rparr>))"

section \<open>Properties of the queue\<close>

lemma dequeue_all_Nil: "dequeue_all [] = []"
  by (subst dequeue_all.simps) (simp add: priv_get_def pop_def)

lemma dequeue_all_snoc: "dequeue_all (dq @ [x]) = x # dequeue_all dq"
proof -
  have "priv_get (dq @ [x]) = Val (x, dq)"
    by (cases dq) (simp_all add: priv_get_def pop_def)
  then show ?thesis
    by (subst dequeue_all.simps) simp
qed

lemma dequeue_all_rev: "dequeue_all dq = rev dq"
  by (induction dq rule: rev_induct) (simp_all add: dequeue_all_Nil dequeue_all_snoc)

lemma submit_all_shape: "submit_all dq ops = rev (normal ops) @ dq @ forced ops"
  by (induction dq ops rule: submit_all.induct)
    (simp_all add: priv_put_def appendleft_def append_right_def forced_def normal_def)

section \<open>Properties of the thread controller and of the decorator\<close>

lemma put_unbounded:
  "maxsize q \<le> 0 \<Longrightarrow>
   put q x b t f =
     Some (Val (q\<lparr>queue := priv_put (queue q) x f, unfinished_tasks := unfinished_tasks q + 1\<rparr>))"
  by (simp add: put_def)

lemma data_queue_put_unbounded:
  "maxsize (data_queue s) \<le> 0 \<Longrightarrow>
   data_queue_put s r =
     Some (Val (s\<lparr>data_queue := (data_queue s)\<lparr>queue := r # queue (data_queue s),
        unfinished_tasks := unfinished_tasks (data_queue s) + 1\<rparr>\<rparr>))"
  by (simp add: data_queue_put_def put_unbounded priv_put_def appendleft_def)

lemma BaseThread_put_unbounded:
  "maxsize (data_queue s) \<le> 0 \<Longrightarrow>
   BaseThread_put s (WeakRef r) force =
     Some (Val (if force \<or> \<not> contains (heap s) (queue (data_queue s)) r
        then s\<lparr>interrupt := False,
               data_queue := (data_queue s)\<lparr>queue := r # queue (data_queue s),
                 unfinished_tasks := unfinished_tasks (data_queue s) + 1\<rparr>\<rparr>
        else s\<lparr>interrupt := False\<rparr>))"
  by (simp add: BaseThread_put_def data_queue_put_unbounded Let_def)

lemma contains_member: "r \<in> set dq \<Longrightarrow> contains h dq r"
  by (auto simp: contains_def list_ex_iff weakref_eq_def)

lemma not_contains_count: "\<not> contains h dq r \<Longrightarrow> count_list dq r = 0"
  using contains_member [of r dq h] by (auto simp: count_list_0_iff)

lemma submissions_count:
  "maxsize (data_queue s) \<le> 0 \<Longrightarrow> r \<in> set (queue (data_queue s)) \<Longrightarrow>
   \<forall>p \<in> set ops. snd p \<longrightarrow> fst p \<noteq> r \<Longrightarrow>
   \<exists>s'. submissions s ops = Some (Val s') \<and>
        count_list (queue (data_queue s')) r = count_list (queue (data_queue s)) r"
proof (induction ops arbitrary: s)
  case Nil
  then show ?case by simp
next
  case (Cons p ops)
  obtain x f where p: "p = (x, f)" by (cases p)
  let ?s1 = "if f \<or> \<not> contains (heap s) (queue (data_queue s)) x
        then s\<lparr>interrupt := False,
               data_queue := (data_queue s)\<lparr>queue := x # queue (data_queue s),
                 unfinished_tasks := unfinished_tasks (data_queue s) + 1\<rparr>\<rparr>
        else s\<lparr>interrupt := False\<rparr>"
  have put: "BaseThread_put s (WeakRef x) f = Some (Val ?s1)"
    using Cons.prems(1) by (rule BaseThread_put_unbounded)
  have neq: "f \<or> \<not> contains (heap s) (queue (data_queue s)) x \<Longrightarrow> x \<noteq> r"
    using Cons.prems(2,3) p contains_member [of r "queue (data_queue s)" "heap s"] by auto
  have c1: "count_list (queue (data_queue ?s1)) r = count_list (queue (data_queue s)) r"
    using neq by auto
  have m1: "maxsize (data_queue ?s1) \<le> 0" using Cons.prems(1) by simp
  have r1: "r \<in> set (queue (data_queue ?s1))" using Cons.prems(2) by simp
  have rest: "\<forall>p \<in> set ops. snd p \<longrightarrow> fst p \<noteq> r" using Cons.prems(3) by simp
  from Cons.IH [OF m1 r1 rest] obtain s' where
    "submissions ?s1 ops = Some (Val s')"
    "count_list (queue (data_queue s')) r = count_list (queue (data_queue ?s1)) r"
    by blast
  then show ?case using put c1 p by simp
qed

lemma func_wrapper_total:
  "\<exists>s'. func_wrapper func s = (Val (), s') \<and> \<not> interrupt s'"
  by (auto simp: func_wrapper_def split: prod.splits res.splits)

lemma func_wrapper_raise:
  assumes "get (data_queue s) = Val (r, q)" and "func (s\<lparr>data_queue := q\<rparr>) r = (Exc e, s1)"
  shows "func_wrapper func s =
     (Val (), if e = Empty then s1\<lparr>interrupt := False\<rparr>
       else s1\<lparr>errors := errors s1 @ [''Failed whilst processing data''], interrupt := False\<rparr>)"
  using assms by (simp add: func_wrapper_def func_body_def)

lemma get_nonempty:
  "queue q \<noteq> [] \<Longrightarrow> get q = Val (last (queue q), q\<lparr>queue := butlast (queue q)\<rparr>)"
  by (cases "queue q") (simp_all add: get_def qsize_def priv_get_def pop_def)

lemma get_empty: "queue q = [] \<Longrightarrow> get q = Exc Empty"
  by (simp add: get_def qsize_def)

lemma drain_empties: "drain q = (Empty, q\<lparr>queue := []\<rparr>)"
proof (induction "length (queue q)" arbitrary: q)
  case 0
  then show ?case by (subst drain.simps) (simp add: get_empty)
next
  case (Suc n)
  then have ne: "queue q \<noteq> []" by auto
  have "length (queue (q\<lparr>queue := butlast (queue q)\<rparr>)) = n" using Suc.hyps(2) by simp
  from Suc.hyps(1) [OF this [symmetric]] show ?case
    by (subst drain.simps) (simp add: get_nonempty [OF ne])
qed

lemma reset_queue_eq:
  "reset_queue s = s\<lparr>interrupt := True, data_queue := (data_queue s)\<lparr>queue := []\<rparr>\<rparr>"
  by (simp add: reset_queue_def drain_empties)


section \<open>Properties of the statements and of the metadata worker\<close>

lemma if_not_ref_dead: "item_at s r = None \<Longrightarrow> if_not_ref v r s = (Return v, s)"
  by (simp add: if_not_ref_def)

lemma if_not_ref_live: "item_at s r = Some it \<Longrightarrow> if_not_ref v r s = (Next it, s)"
  by (simp add: if_not_ref_def)

lemma if_not_ref_or_interrupt_dead:
  "item_at s r = None \<Longrightarrow> if_not_ref_or_interrupt v r s = (Return v, s)"
  by (simp add: if_not_ref_or_interrupt_def)

lemma if_not_ref_or_interrupt_live:
  "item_at s r = Some it \<Longrightarrow>
   if_not_ref_or_interrupt v r s = (if interrupt s then (Return v, s) else (Next it, s))"
  by (simp add: if_not_ref_or_interrupt_def)

lemma andthen_Next: "m s = (Next x, s1) \<Longrightarrow> andthen m k s = k x s1"
  by (simp add: andthen_def)

lemma andthen_Return: "m s = (Return v, s1) \<Longrightarrow> andthen m k s = (Return v, s1)"
  by (simp add: andthen_def)

lemma andthen_Raise: "m s = (Raise e, s1) \<Longrightarrow> andthen m k s = (Raise e, s1)"
  by (simp add: andthen_def)

lemma InfoWorker_dead:
  "item_at s r = None \<Longrightarrow> InfoWorker_process_data E s r = (Val None, s)"
  by (simp add: InfoWorker_process_data_def run_def andthen_Return if_not_ref_or_interrupt_dead)

lemma process_file_information_loaded:
  "item_at s r = Some it \<Longrightarrow> FileInfoLoaded it \<Longrightarrow>
   process_file_information E r s = (Val (Some r), s)"
  by (simp add: process_file_information_def run_def andthen_Next if_not_ref_live return_def)

lemma InfoWorker_loaded:
  "item_at s r = Some it \<Longrightarrow> FileInfoLoaded it \<Longrightarrow>
   InfoWorker_process_data E s r = (if interrupt s then (Val None, s) else (Val (Some r), s))"
  by (simp add: InfoWorker_process_data_def run_def andthen_def if_not_ref_or_interrupt_live
      call_def process_file_information_loaded if_not_ref_live return_def)

lemma func_wrapper_None:
  "get (data_queue s) = Val (r, q) \<Longrightarrow> func (s\<lparr>data_queue := q\<rparr>) r = (Val None, s1) \<Longrightarrow>
   func_wrapper func s = (Val (), s1\<lparr>interrupt := False\<rparr>)"
  by (simp add: func_wrapper_def func_body_def)

lemma func_wrapper_Some:
  "get (data_queue s) = Val (r, q) \<Longrightarrow> func (s\<lparr>data_queue := q\<rparr>) r = (Val (Some x), s1) \<Longrightarrow>
   0 < unfinished_tasks (data_queue s1) \<Longrightarrow>
   func_wrapper func s =
     (Val (), s1\<lparr>dataReady := dataReady s1 @ [x],
        data_queue := (data_queue s1)\<lparr>unfinished_tasks := unfinished_tasks (data_queue s1) - 1\<rparr>,
        interrupt := False\<rparr>)"
  by (simp add: func_wrapper_def func_body_def task_done_def Let_def)

lemma item_at_data_queue [simp]: "item_at (s\<lparr>data_queue := q\<rparr>) r = item_at s r"
  by (simp add: item_at_def)

lemma get_sample_state:
  "get (data_queue (sample_state h (x # xs))) =
     Val (last (x # xs), \<lparr>maxsize = 0, queue = butlast (x # xs),
        unfinished_tasks = int (length (x # xs))\<rparr>)"
  by (simp add: sample_state_def sample_worker_def get_nonempty)

lemma process_file_information_no_db:
  "item_at s r = Some it \<Longrightarrow> \<not> FileInfoLoaded it \<Longrightarrow>
   ParentPathRole it = server # job # root # rest \<Longrightarrow> get_db E server job root = None \<Longrightarrow>
   process_file_information E r s = (Val None, s)"
  by (simp add: process_file_information_def run_def andthen_def if_not_ref_live parent_path_def
      continue_def return_def)

lemma InfoWorker_no_db:
  "item_at s r = Some it \<Longrightarrow> \<not> FileInfoLoaded it \<Longrightarrow> \<not> interrupt s \<Longrightarrow>
   ParentPathRole it = server # job # root # rest \<Longrightarrow> get_db E server job root = None \<Longrightarrow>
   InfoWorker_process_data E s r = (Exc TypeError, s)"
  by (simp add: InfoWorker_process_data_def run_def andthen_def if_not_ref_or_interrupt_live
      call_def process_file_information_no_db raise_def)

lemma InfoWorker_activation_loaded:
  "item_at s r = Some it \<Longrightarrow> FileInfoLoaded it \<Longrightarrow> get (data_queue s) = Val (r, q) \<Longrightarrow>
   dataReady (snd (func_wrapper (InfoWorker_process_data E) s)) =
     (if interrupt s then dataReady s else dataReady s @ [r])"
proof -
  assume a: "item_at s r = Some it" and l: "FileInfoLoaded it"
    and g: "get (data_queue s) = Val (r, q)"
  have i: "item_at (s\<lparr>data_queue := q\<rparr>) r = Some it"
    using a by simp
  have "InfoWorker_process_data E (s\<lparr>data_queue := q\<rparr>) r =
      (if interrupt s then Val None else Val (Some r), s\<lparr>data_queue := q\<rparr>)"
    using InfoWorker_loaded [where E = E, OF i l] by simp
  then show ?thesis
    using g by (simp add: func_wrapper_def func_body_def task_done_def Let_def)
qed

section \<open>Properties of the thumbnail worker and of the folder worker\<close>

lemma item_at_dead: "heap s r = None \<Longrightarrow> item_at s r = None"
  by (simp add: item_at_def)

lemma not_segment_dead: "heap s r = None \<Longrightarrow> not_segment s r"
  by (simp add: not_segment_def segment_at_def)

lemma ThumbnailWorker_dead:
  "item_at s r = None \<Longrightarrow> ThumbnailWorker_process_data E s r = (Val None, s)"
  by (simp add: ThumbnailWorker_process_data_def run_def andthen_Return
      if_not_ref_or_interrupt_dead)

lemma TaskFolderWorker_dead:
  "not_segment s r \<Longrightarrow> TaskFolderWorker_process_data E s r = (Val None, s)"
  by (simp add: TaskFolderWorker_process_data_def run_def andthen_def
      if_not_segment_or_interrupt_def)

lemma if_not_refs_or_interrupt_live:
  "\<not> not_segment s r \<Longrightarrow> item_at s c = Some it \<Longrightarrow> \<not> interrupt s \<Longrightarrow>
   if_not_refs_or_interrupt r c s = (Next (), s)"
  by (simp add: if_not_refs_or_interrupt_def)

lemma count_loop_live:
  "\<not> not_segment s r \<Longrightarrow> item_at s c = Some it \<Longrightarrow> \<not> interrupt s \<Longrightarrow> count \<le> 999 \<Longrightarrow>
   count_loop r c entries count s =
     (Next (min (count + int (length (filter (\<lambda>e. \<not> startswith_dot (name e)) entries))) 1000), s)"
proof (induction entries arbitrary: count)
  case Nil
  then show ?case by (simp add: continue_def)
next
  case (Cons entry entries)
  have t: "if_not_refs_or_interrupt r c s = (Next (), s)"
    using Cons.prems by (simp add: if_not_refs_or_interrupt_live)
  show ?case
  proof (cases "startswith_dot (name entry)")
    case True
    then show ?thesis
      using Cons.IH [OF Cons.prems] by (simp add: andthen_def t)
  next
    case False
    show ?thesis
    proof (cases "count + 1 > 999")
      case True
      then show ?thesis
        using False Cons.prems by (simp add: andthen_def t continue_def)
    next
      case b: False
      then have "count + 1 \<le> 999" by simp
      from Cons.IH [OF Cons.prems(1-3) this] show ?thesis
        using False b by (simp add: andthen_def t add.assoc)
    qed
  qed
qed


lemma folders_loop_step:
  assumes seg: "\<not> not_segment s r" and ni: "\<not> interrupt s" and c: "item_at s c = Some it"
  shows "folders_loop E r (c # cs) s =
     folders_loop E r cs
       (s\<lparr>heap := (heap s)(c \<mapsto> Item (it\<lparr>TodoCountRole :=
            min (int (length (filter (\<lambda>e. \<not> startswith_dot (name e)) (walk E (StatusTipRole it)))))
              1000\<rparr>)),
          dataReady := dataReady s @ [c]\<rparr>)"
proof -
  let ?n = "min (int (length (filter (\<lambda>e. \<not> startswith_dot (name e))
      (walk E (StatusTipRole it))))) 1000"
  let ?s1 = "s\<lparr>heap := (heap s)(c \<mapsto> Item (it\<lparr>TodoCountRole := ?n\<rparr>))\<rparr>"
  have ne: "c \<noteq> r"
    using seg c by (auto simp add: not_segment_def segment_at_def item_at_def
        split: option.splits obj.splits)
  have cl: "count_loop r c (walk E (StatusTipRole it)) 0 s = (Next ?n, s)"
    using count_loop_live [OF seg c ni, of 0 "walk E (StatusTipRole it)"] by simp
  have seg1: "\<not> not_segment ?s1 r"
    using seg ne by (simp add: not_segment_def segment_at_def)
  have c1: "item_at ?s1 c = Some (it\<lparr>TodoCountRole := ?n\<rparr>)"
    by (simp add: item_at_def)
  have ni1: "\<not> interrupt ?s1" using ni by simp
  have a: "if_not_segment_or_interrupt r s = (Next (), s)"
    using seg ni by (simp add: if_not_segment_or_interrupt_def)
  have b: "getitem c s = (Next it, s)"
    using c by (simp add: getitem_def)
  have d: "if_not_refs_or_interrupt r c s = (Next (), s)"
    by (rule if_not_refs_or_interrupt_live [OF seg c ni])
  have e: "setitem c (\<lambda>it. it\<lparr>TodoCountRole := ?n\<rparr>) s = (Next (), ?s1)"
    using c by (simp add: setitem_def)
  have f: "if_not_refs_or_interrupt r c ?s1 = (Next (), ?s1)"
    by (rule if_not_refs_or_interrupt_live [OF seg1 c1 ni1])
  show ?thesis
    by (simp add: andthen_def a b cl d e f emit_dataReady_def)
qed

lemma folders_loop_live:
  "\<not> not_segment s r \<Longrightarrow> \<not> interrupt s \<Longrightarrow> \<forall>c\<in>set cs. item_at s c \<noteq> None \<Longrightarrow>
   \<exists>s'. folders_loop E r cs s = (Next (), s') \<and>
     dataReady s' = dataReady s @ cs \<and>
     (\<forall>x. x \<notin> set cs \<longrightarrow> heap s' x = heap s x) \<and>
     (\<forall>c\<in>set cs. \<forall>it. item_at s c = Some it \<longrightarrow>
        item_at s' c = Some (it\<lparr>TodoCountRole :=
          min (int (length (filter (\<lambda>e. \<not> startswith_dot (name e)) (walk E (StatusTipRole it)))))
            1000\<rparr>))"
proof (induction cs arbitrary: s)
  case Nil
  then show ?case by (simp add: continue_def)
next
  case (Cons c cs)
  obtain it where c: "item_at s c = Some it"
    using Cons.prems(3) by auto
  let ?N = "\<lambda>it. min (int (length (filter (\<lambda>e. \<not> startswith_dot (name e))
      (walk E (StatusTipRole it))))) 1000"
  let ?s1 = "s\<lparr>heap := (heap s)(c \<mapsto> Item (it\<lparr>TodoCountRole := ?N it\<rparr>)),
      dataReady := dataReady s @ [c]\<rparr>"
  have ne: "c \<noteq> r"
    using Cons.prems(1) c by (auto simp add: not_segment_def segment_at_def item_at_def
        split: option.splits obj.splits)
  have step: "folders_loop E r (c # cs) s = folders_loop E r cs ?s1"
    by (rule folders_loop_step [OF Cons.prems(1) Cons.prems(2) c])
  have seg1: "\<not> not_segment ?s1 r"
    using Cons.prems(1) ne by (simp add: not_segment_def segment_at_def)
  have ni1: "\<not> interrupt ?s1" using Cons.prems(2) by simp
  have it1: "item_at ?s1 x = (if x = c then Some (it\<lparr>TodoCountRole := ?N it\<rparr>) else item_at s x)"
    for x by (simp add: item_at_def)
  have live1: "\<forall>x\<in>set cs. item_at ?s1 x \<noteq> None"
    using Cons.prems(3) by (simp add: it1)
  from Cons.IH [OF seg1 ni1 live1] obtain s' where
    r: "folders_loop E r cs ?s1 = (Next (), s')" and
    d: "dataReady s' = dataReady ?s1 @ cs" and
    h: "\<forall>x. x \<notin> set cs \<longrightarrow> heap s' x = heap ?s1 x" and
    t: "\<forall>x\<in>set cs. \<forall>it'. item_at ?s1 x = Some it' \<longrightarrow>
        item_at s' x = Some (it'\<lparr>TodoCountRole := ?N it'\<rparr>)"
    by blast
  have 1: "folders_loop E r (c # cs) s = (Next (), s')"
    using step r by simp
  have 2: "dataReady s' = dataReady s @ c # cs"
    using d by simp
  have 3: "\<forall>x. x \<notin> set (c # cs) \<longrightarrow> heap s' x = heap s x"
    using h by simp
  have 4: "item_at s' x = Some (it'\<lparr>TodoCountRole := ?N it'\<rparr>)"
    if x: "x \<in> set (c # cs)" and i: "item_at s x = Some it'" for x it'
  proof (cases "x \<in> set cs")
    case True
    show ?thesis
    proof (cases "x = c")
      case e: True
      then have "it' = it" using i c by simp
      then show ?thesis
        using t True e by (simp add: it1)
    next
      case False
      then show ?thesis
        using t True i by (simp add: it1)
    qed
  next
    case False
    then have e: "x = c" using x by simp
    then have "it' = it" using i c by simp
    moreover have "heap s' c = heap ?s1 c"
      using h False e by simp
    ultimately show ?thesis
      using e by (simp add: item_at_def)
  qed
  show ?case
    using 1 2 3 4 by blast
qed

lemma TaskFolderWorker_live:
  "segment_at s r = Some vs \<Longrightarrow> vs \<noteq> [] \<Longrightarrow> \<not> interrupt s \<Longrightarrow>
   \<forall>c\<in>set vs. item_at s c \<noteq> None \<Longrightarrow>
   \<exists>s'. TaskFolderWorker_process_data E s r = (Val None, s') \<and>
     dataReady s' = dataReady s @ vs \<and>
     (\<forall>x. x \<notin> set vs \<longrightarrow> heap s' x = heap s x) \<and>
     (\<forall>c\<in>set vs. \<forall>it. item_at s c = Some it \<longrightarrow>
        item_at s' c = Some (it\<lparr>TodoCountRole :=
          min (int (length (filter (\<lambda>e. \<not> startswith_dot (name e)) (walk E (StatusTipRole it)))))
            1000\<rparr>))"
proof -
  assume sg: "segment_at s r = Some vs" and ne: "vs \<noteq> []" and ni: "\<not> interrupt s"
    and live: "\<forall>c\<in>set vs. item_at s c \<noteq> None"
  have seg: "\<not> not_segment s r"
    using sg ne by (simp add: not_segment_def)
  from folders_loop_live [OF seg ni live, of E] obtain s' where
    r: "folders_loop E r vs s = (Next (), s')" and
    rest: "dataReady s' = dataReady s @ vs \<and>
     (\<forall>x. x \<notin> set vs \<longrightarrow> heap s' x = heap s x) \<and>
     (\<forall>c\<in>set vs. \<forall>it. item_at s c = Some it \<longrightarrow>
        item_at s' c = Some (it\<lparr>TodoCountRole :=
          min (int (length (filter (\<lambda>e. \<not> startswith_dot (name e)) (walk E (StatusTipRole it)))))
            1000\<rparr>))"
    by blast
  have "TaskFolderWorker_process_data E s r = (Val None, s')"
    using seg ni sg r
    by (simp add: TaskFolderWorker_process_data_def run_def andthen_def
        if_not_segment_or_interrupt_def values_of_def return_def)
  then show ?thesis
    using rest by blast
qed

lemma try_block_oversize:
  "item_at s r = Some it \<Longrightarrow>
   size_ceiling \<le> file_size E (if is_collapsed E (StatusTipRole it)
      then get_sequence_startpath E (StatusTipRole it) else StatusTipRole it) \<Longrightarrow>
   try_block E r s =
     (\<lparr>outcome = Val False,
       source = Some (if is_collapsed E (StatusTipRole it)
          then get_sequence_startpath E (StatusTipRole it) else StatusTipRole it),
       dest = Some (ThumbnailPathRole it)\<rparr>, s)"
  by (simp add: try_block_def Let_def)

lemma process_thumbnail_oversize:
  "item_at s r = Some it \<Longrightarrow>
   size_ceiling \<le> file_size E (if is_collapsed E (StatusTipRole it)
      then get_sequence_startpath E (StatusTipRole it) else StatusTipRole it) \<Longrightarrow>
   process_thumbnail E r s =
     (Val (Some False), s\<lparr>heap := (heap s)(r \<mapsto> Item (it\<lparr>FileThumbnailLoaded := True\<rparr>))\<rparr>)"
  by (simp add: process_thumbnail_def try_block_oversize finally_clause_def)

lemma make_thumbnail_oversize:
  assumes i: "item_at s r = Some it"
    and big: "size_ceiling \<le> file_size E (if is_collapsed E (StatusTipRole it)
      then get_sequence_startpath E (StatusTipRole it) else StatusTipRole it)"
  shows "make_thumbnail E r s =
     (Return None, if interrupt s then s
        else s\<lparr>heap := (heap s)(r \<mapsto> Item (it\<lparr>FileThumbnailLoaded := True\<rparr>))\<rparr>)"
proof (cases "interrupt s")
  case True
  then show ?thesis
    using i by (simp add: make_thumbnail_def andthen_def if_not_ref_or_interrupt_def)
next
  case False
  let ?s1 = "s\<lparr>heap := (heap s)(r \<mapsto> Item (it\<lparr>FileThumbnailLoaded := False\<rparr>))\<rparr>"
  have i1: "item_at ?s1 r = Some (it\<lparr>FileThumbnailLoaded := False\<rparr>)"
    by (simp add: item_at_def)
  have p: "process_thumbnail E r ?s1 =
      (Val (Some False), s\<lparr>heap := (heap s)(r \<mapsto> Item (it\<lparr>FileThumbnailLoaded := True\<rparr>))\<rparr>)"
    using process_thumbnail_oversize [where E = E, OF i1] big by (simp cong: if_cong)
  show ?thesis
    using False i p
    by (simp add: make_thumbnail_def andthen_def if_not_ref_or_interrupt_def setitem_def
        call_def return_def)
qed

lemma wait_for_info_loaded:
  "item_at s r = Some it \<Longrightarrow> FileInfoLoaded it \<Longrightarrow> wait_for_info r n s = (Next (), s)"
  by (subst wait_for_info.simps) simp

lemma wait_for_info_state:
  "wait_for_info r n s = (Next (), s) \<or> wait_for_info r n s = (Return None, s)"
proof (induction r n s rule: wait_for_info.induct)
  case (1 r n s)
  show ?case
  proof (cases "item_at s r")
    case None
    then show ?thesis by (subst wait_for_info.simps, subst wait_for_info.simps) simp
  next
    case (Some it)
    then show ?thesis
      using 1 [OF Some]
      by (subst wait_for_info.simps, subst (2) wait_for_info.simps) auto
  qed
qed

lemma load_cached_generated: "generated (snd (load_cached r img s)) = generated s"
  by (simp add: load_cached_def andthen_def if_not_ref_or_interrupt_def setitem_def return_def
      split: option.splits)


lemma run_snd: "snd (run d m s) = snd (m s)"
  by (simp add: run_def split: prod.splits flow.splits)

lemma ThumbnailWorker_oversize_generated:
  assumes i: "item_at s r = Some it"
    and big: "size_ceiling \<le> file_size E (if is_collapsed E (StatusTipRole it)
      then get_sequence_startpath E (StatusTipRole it) else StatusTipRole it)"
  shows "generated (snd (ThumbnailWorker_process_data E s r)) = generated s"
proof (cases "interrupt s")
  case True
  then show ?thesis
    using i by (simp add: ThumbnailWorker_process_data_def run_snd andthen_def
        if_not_ref_or_interrupt_def)
next
  case False
  have t: "if_not_ref_or_interrupt v r s = (Next it, s)" for v :: "ref option"
    using i False by (simp add: if_not_ref_or_interrupt_def)
  note m = make_thumbnail_oversize [OF i big]
  from wait_for_info_state [of r 0 s] show ?thesis
  proof
    assume w: "wait_for_info r 0 s = (Next (), s)"
    show ?thesis
      using False
      by (simp add: ThumbnailWorker_process_data_def run_snd andthen_def t w continue_def
          return_def load_cached_generated m split: option.splits)
  next
    assume w: "wait_for_info r 0 s = (Return None, s)"
    show ?thesis
      by (simp add: ThumbnailWorker_process_data_def run_snd andthen_def t w return_def)
  qed
qed

lemma ThumbnailWorker_oversize_reached:
  assumes i: "item_at s r = Some it"
    and big: "size_ceiling \<le> file_size E (if is_collapsed E (StatusTipRole it)
      then get_sequence_startpath E (StatusTipRole it) else StatusTipRole it)"
    and ni: "\<not> interrupt s"
    and na: "FlagsRole it AND MarkedAsArchived E = 0"
    and fi: "FileInfoLoaded it"
    and nt: "\<not> FileThumbnailLoaded it"
    and nf: "\<not> file_exists E (ThumbnailPathRole it)"
    and ex: "lower (lower (last (split (StatusTipRole it) CHR ''.''))) \<in> set (get_extensions E)"
  shows "ThumbnailWorker_process_data E s r =
     (Val None, s\<lparr>heap := (heap s)(r \<mapsto> Item (it\<lparr>FileThumbnailLoaded := True\<rparr>))\<rparr>)"
proof -
  have t: "if_not_ref_or_interrupt v r s = (Next it, s)" for v :: "ref option"
    using i ni by (simp add: if_not_ref_or_interrupt_def)
  note m = make_thumbnail_oversize [OF i big]
  note w = wait_for_info_loaded [OF i fi, of 0]
  show ?thesis
    using ni na nt nf ex
    by (simp add: ThumbnailWorker_process_data_def run_def andthen_def t w continue_def m)
qed

lemma ThumbnailWorker_archived:
  "item_at s r = Some it \<Longrightarrow> FlagsRole it AND MarkedAsArchived E \<noteq> 0 \<Longrightarrow>
   ThumbnailWorker_process_data E s r = (Val None, s)"
  by (simp add: ThumbnailWorker_process_data_def run_def andthen_def if_not_ref_or_interrupt_def
      return_def)

section \<open>C1: the order in which the queue hands items out\<close>

text \<open>
  Claim C1, as amended. After any run of normal and forced submissions to an empty queue
  with no dequeue in between, the items are dequeued like this: the forced ones first,
  the latest forced one first (LIFO), then the normal ones in the order of their
  submission (FIFO). In particular a forced submission to any queue is dequeued before
  everything that is already queued, normal or forced, and a normal submission after
  everything that is already queued.
\<close>

theorem C1_dequeue_order:
  "dequeue_all (submit_all [] ops) = rev (forced ops) @ normal ops \<and>
   dequeue_all (submit_all dq [(x, True)]) = x # dequeue_all dq \<and>
   dequeue_all (submit_all dq [(x, False)]) = dequeue_all dq @ [x]"
  by (simp add: dequeue_all_rev submit_all_shape forced_def normal_def)

theorem C1_dequeue_order_witness:
  "dequeue_all (submit_all [] [(1::nat, False), (2, True), (3, False), (4, True)]) = [4, 2, 1, 3]"
  using C1_dequeue_order [of "[(1::nat, False), (2, True), (3, False), (4, True)]" "[]" 0,
      THEN conjunct1]
  by (simp add: forced_def normal_def)

text \<open>
  Claim C1 as stated also says that a forced submission is dequeued after any item
  forced before it. It is not: with the normal item 1 queued, 2 forced and then 3
  forced, 3 is dequeued before 2.
\<close>

theorem C1_counterexample:
  "dequeued_before (3::nat) 2 (dequeue_all (submit_all [] [(1, False), (2, True), (3, True)])) \<and>
   \<not> dequeued_before (2::nat) 3 (dequeue_all (submit_all [] [(1, False), (2, True), (3, True)]))"
  by (simp add: dequeue_all_rev submit_all_shape forced_def normal_def dequeued_before_def)

section \<open>C2: the thread controller does not pass \<open>force\<close> on\<close>

text \<open>
  Claim C2. \<open>BaseThread.put(ref, force=True)\<close> calls the queue's \<open>put\<close> without the
  flag: on the worker's queue (which has no bound) the reference is enqueued as a normal
  item, with \<open>appendleft\<close>, and is dequeued after everything that is already queued.
  All that \<open>force\<close> changes is that the membership test is skipped: without
  \<open>force\<close> the call does the same when the reference is not in the queue, and only clears
  the interrupt flag when it is.
\<close>

theorem C2_force_not_forwarded:
  "maxsize (data_queue s) \<le> 0 \<Longrightarrow>
   (\<exists>s'. BaseThread_put s (WeakRef r) True = Some (Val s') \<and>
         queue (data_queue s') = priv_put (queue (data_queue s)) r False \<and>
         queue (data_queue s') = appendleft (queue (data_queue s)) r \<and>
         dequeue_all (queue (data_queue s')) = dequeue_all (queue (data_queue s)) @ [r]) \<and>
   BaseThread_put s (WeakRef r) False =
     (if contains (heap s) (queue (data_queue s)) r then Some (Val (s\<lparr>interrupt := False\<rparr>))
      else BaseThread_put s (WeakRef r) True)"
  by (simp add: BaseThread_put_unbounded priv_put_def appendleft_def dequeue_all_rev)

theorem C2_force_not_forwarded_witness:
  "maxsize (data_queue (sample_worker [1, 2])) \<le> 0 \<and>
   (\<exists>s'. BaseThread_put (sample_worker [1, 2]) (WeakRef 3) True = Some (Val s') \<and>
         queue (data_queue s') = [3, 1, 2] \<and>
         dequeue_all (queue (data_queue s')) = [2, 1, 3]) \<and>
   BaseThread_put (sample_worker [1, 2]) (WeakRef 2) False =
     Some (Val ((sample_worker [1, 2])\<lparr>interrupt := False\<rparr>))"
proof -
  have m: "maxsize (data_queue (sample_worker [1, 2])) \<le> 0"
    by (simp add: sample_worker_def)
  have q: "queue (data_queue (sample_worker [1, 2])) = [1, 2]"
    by (simp add: sample_worker_def)
  have c: "contains (heap (sample_worker [1, 2])) (queue (data_queue (sample_worker [1, 2]))) 2"
    by (rule contains_member) (simp add: sample_worker_def)
  from C2_force_not_forwarded [OF m, of 3] obtain s' where
    a: "BaseThread_put (sample_worker [1, 2]) (WeakRef 3) True = Some (Val s')" and
    b: "queue (data_queue s') = appendleft (queue (data_queue (sample_worker [1, 2]))) 3" and
    d: "dequeue_all (queue (data_queue s')) =
          dequeue_all (queue (data_queue (sample_worker [1, 2]))) @ [3]"
    by blast
  have e: "BaseThread_put (sample_worker [1, 2]) (WeakRef 2) False =
      Some (Val ((sample_worker [1, 2])\<lparr>interrupt := False\<rparr>))"
    using C2_force_not_forwarded [OF m, of 2] c by simp
  have "queue (data_queue s') = [3, 1, 2]"
    using b q by (simp add: appendleft_def)
  moreover have "dequeue_all (queue (data_queue s')) = [2, 1, 3]"
    using d q by (simp add: dequeue_all_rev)
  ultimately show ?thesis
    using m a e by blast
qed

section \<open>C3: a reference submitted twice is queued once\<close>

text \<open>
  Claim C3. A reference that the queue does not hold is submitted without \<open>force\<close>,
  then any submissions other than a forced one of the same reference follow, then it is
  submitted without \<open>force\<close> again, and nothing is dequeued in between: the queue then
  holds the reference once, so that it is dequeued once.
\<close>

theorem C3_submitted_twice_queued_once:
  "maxsize (data_queue s) \<le> 0 \<Longrightarrow> \<not> contains (heap s) (queue (data_queue s)) r \<Longrightarrow>
   \<forall>p \<in> set mid. snd p \<longrightarrow> fst p \<noteq> r \<Longrightarrow>
   \<exists>s'. submissions s ((r, False) # mid @ [(r, False)]) = Some (Val s') \<and>
        count_list (queue (data_queue s')) r = 1 \<and>
        count_list (dequeue_all (queue (data_queue s'))) r = 1"
proof -
  assume m: "maxsize (data_queue s) \<le> 0"
    and n: "\<not> contains (heap s) (queue (data_queue s)) r"
    and mid: "\<forall>p \<in> set mid. snd p \<longrightarrow> fst p \<noteq> r"
  let ?s1 = "s\<lparr>interrupt := False,
               data_queue := (data_queue s)\<lparr>queue := r # queue (data_queue s),
                 unfinished_tasks := unfinished_tasks (data_queue s) + 1\<rparr>\<rparr>"
  have first: "BaseThread_put s (WeakRef r) False = Some (Val ?s1)"
    using n by (simp add: BaseThread_put_unbounded [OF m])
  have c1: "count_list (queue (data_queue ?s1)) r = 1"
    using not_contains_count [OF n] by simp
  have "\<forall>p \<in> set (mid @ [(r, False)]). snd p \<longrightarrow> fst p \<noteq> r"
    using mid by simp
  from submissions_count [of ?s1 r "mid @ [(r, False)]", OF _ _ this] m
  obtain s' where rest: "submissions ?s1 (mid @ [(r, False)]) = Some (Val s')"
    and c: "count_list (queue (data_queue s')) r = count_list (queue (data_queue ?s1)) r"
    by auto
  have "submissions s ((r, False) # mid @ [(r, False)]) = Some (Val s')"
    using first rest by simp
  then show ?thesis
    using c c1 by (simp add: dequeue_all_rev)
qed

theorem C3_submitted_twice_queued_once_witness:
  "maxsize (data_queue (sample_worker [1, 2])) \<le> 0 \<and>
   \<not> contains (heap (sample_worker [1, 2])) (queue (data_queue (sample_worker [1, 2]))) 3 \<and>
   (\<exists>s'. submissions (sample_worker [1, 2]) [(3, False), (4, False), (3, False)] = Some (Val s') \<and>
        count_list (queue (data_queue s')) 3 = 1 \<and>
        count_list (dequeue_all (queue (data_queue s'))) 3 = 1)"
proof -
  have m: "maxsize (data_queue (sample_worker [1, 2])) \<le> 0"
    by (simp add: sample_worker_def)
  have n: "\<not> contains (heap (sample_worker [1, 2])) (queue (data_queue (sample_worker [1, 2]))) 3"
    by (simp add: sample_worker_def contains_def weakref_eq_def BaseWorker_init_def)
  have mid: "\<forall>p \<in> set [(4::nat, False)]. snd p \<longrightarrow> fst p \<noteq> 3"
    by simp
  show ?thesis
    using m n C3_submitted_twice_queued_once [OF m n mid] by simp
qed

section \<open>C10: the interrupt flag after an activation\<close>

text \<open>
  Claim C10. Whatever the step does (return a reference, return nothing, raise) and
  whatever the state is (flag set or not, queue empty or not), the decorated call
  returns, and the interrupt flag is false afterwards. That holds too right after
  \<open>reset_queue\<close>, which sets the flag and empties the queue.
\<close>

theorem C10_interrupt_cleared:
  "fst (func_wrapper func s) = Val () \<and>
   \<not> interrupt (snd (func_wrapper func s)) \<and>
   interrupt (reset_queue s) \<and>
   queue (data_queue (reset_queue s)) = [] \<and>
   \<not> interrupt (snd (func_wrapper func (reset_queue s)))"
  using func_wrapper_total [of func s] func_wrapper_total [of func "reset_queue s"]
  by (auto simp: reset_queue_eq)

theorem C10_interrupt_cleared_witness:
  "interrupt (reset_queue (sample_worker [1, 2])) \<and>
   \<not> interrupt (snd (func_wrapper BaseWorker_process_data (reset_queue (sample_worker [1, 2])))) \<and>
   \<not> interrupt (snd (func_wrapper BaseWorker_process_data (sample_worker [1, 2])))"
  using C10_interrupt_cleared [of BaseWorker_process_data "sample_worker [1, 2]"]
  by simp

section \<open>C6: an item that is already loaded\<close>

text \<open>
  Claim C6, as amended. For a live item already marked \<open>FileInfoLoaded\<close> the metadata
  worker writes no field: the heap is unchanged. Its step does not return empty, though:
  \<open>process_file_information\<close> returns the reference, so that, unless the worker is
  interrupted, the step returns the reference and the activation emits one \<open>dataReady\<close>
  for it.
\<close>

theorem C6_loaded_record_is_announced:
  "item_at s r = Some it \<Longrightarrow> FileInfoLoaded it \<Longrightarrow> get (data_queue s) = Val (r, q) \<Longrightarrow>
   InfoWorker_process_data E (s\<lparr>data_queue := q\<rparr>) r =
     (if interrupt s then Val None else Val (Some r), s\<lparr>data_queue := q\<rparr>) \<and>
   heap (snd (func_wrapper (InfoWorker_process_data E) s)) = heap s \<and>
   dataReady (snd (func_wrapper (InfoWorker_process_data E) s)) =
     (if interrupt s then dataReady s else dataReady s @ [r])"
proof -
  assume a: "item_at s r = Some it" and l: "FileInfoLoaded it"
    and g: "get (data_queue s) = Val (r, q)"
  have i: "item_at (s\<lparr>data_queue := q\<rparr>) r = Some it"
    using a by simp
  have step: "InfoWorker_process_data E (s\<lparr>data_queue := q\<rparr>) r =
      (if interrupt s then Val None else Val (Some r), s\<lparr>data_queue := q\<rparr>)"
    using InfoWorker_loaded [where E = E, OF i l] by simp
  show ?thesis
    using step g
    by (simp add: func_wrapper_def func_body_def task_done_def Let_def)
qed

theorem C6_loaded_record_is_announced_witness:
  "dataReady (snd (func_wrapper (InfoWorker_process_data sample_env) (sample_state loaded_heap [1])))
     = [1] \<and>
   heap (snd (func_wrapper (InfoWorker_process_data sample_env) (sample_state loaded_heap [1])))
     = loaded_heap"
proof -
  have a: "item_at (sample_state loaded_heap [1]) 1 = Some (sample_item\<lparr>FileInfoLoaded := True\<rparr>)"
    by (simp add: item_at_def sample_state_def loaded_heap_def)
  have l: "FileInfoLoaded (sample_item\<lparr>FileInfoLoaded := True\<rparr>)"
    by simp
  have g: "get (data_queue (sample_state loaded_heap [1])) =
      Val (1, \<lparr>maxsize = 0, queue = [], unfinished_tasks = 1\<rparr>)"
    using get_sample_state [of loaded_heap 1 "[]"] by simp
  show ?thesis
    using C6_loaded_record_is_announced [where E = sample_env, OF a l g]
    by (simp add: sample_state_def sample_worker_def BaseWorker_init_def)
qed

text \<open>
  Claim C6 as stated says that the step returns empty and that no \<open>dataReady\<close> is
  emitted. With the loaded item at reference 1 the step returns the reference, and the
  activation emits the signal.
\<close>

theorem C6_counterexample:
  "fst (InfoWorker_process_data sample_env (sample_state loaded_heap []) 1) = Val (Some 1) \<and>
   dataReady (sample_state loaded_heap [1]) = [] \<and>
   dataReady (snd (func_wrapper (InfoWorker_process_data sample_env) (sample_state loaded_heap [1])))
     \<noteq> []"
proof -
  have a: "item_at (sample_state loaded_heap dq) 1 = Some (sample_item\<lparr>FileInfoLoaded := True\<rparr>)"
    for dq
    by (simp add: item_at_def sample_state_def loaded_heap_def)
  have n: "\<not> interrupt (sample_state loaded_heap dq)" for dq
    by (simp add: sample_state_def sample_worker_def BaseWorker_init_def)
  have s1: "InfoWorker_process_data sample_env (sample_state loaded_heap []) 1 =
      (Val (Some 1), sample_state loaded_heap [])"
    using InfoWorker_loaded [where E = sample_env, OF a [of "[]"]] n [of "[]"] by simp
  have q: "(sample_state loaded_heap [1])\<lparr>data_queue := \<lparr>maxsize = 0, queue = [],
        unfinished_tasks = 1\<rparr>\<rparr> = (sample_state loaded_heap [])\<lparr>data_queue := \<lparr>maxsize = 0,
        queue = [], unfinished_tasks = 1\<rparr>\<rparr>"
    by (simp add: sample_state_def sample_worker_def)
  have g: "get (data_queue (sample_state loaded_heap [1])) =
      Val (1, \<lparr>maxsize = 0, queue = [], unfinished_tasks = 1\<rparr>)"
    using get_sample_state [of loaded_heap 1 "[]"] by simp
  let ?s1 = "(sample_state loaded_heap [1])\<lparr>data_queue := \<lparr>maxsize = 0, queue = [],
        unfinished_tasks = 1\<rparr>\<rparr>"
  have i: "item_at ?s1 1 = Some (sample_item\<lparr>FileInfoLoaded := True\<rparr>)"
    using a [of "[1]"] by simp
  have s2: "InfoWorker_process_data sample_env ?s1 1 = (Val (Some 1), ?s1)"
    using InfoWorker_loaded [where E = sample_env, OF i] n [of "[1]"] by simp
  have "dataReady (snd (func_wrapper (InfoWorker_process_data sample_env)
      (sample_state loaded_heap [1]))) = [1]"
    using g s2
    by (simp add: func_wrapper_def func_body_def task_done_def sample_state_def
        sample_worker_def BaseWorker_init_def)
  then show ?thesis
    using s1 by (simp add: sample_state_def sample_worker_def BaseWorker_init_def)
qed

section \<open>C9: a step that raises\<close>

text \<open>
  Claim C9. When the step raises on the dequeued reference, the activation returns all
  the same: no exception leaves it. The decorator leaves the state as the step left it,
  but for the message given to the log (none for \<open>Queue.Empty\<close>) and the interrupt flag,
  which is cleared. So it emits no \<open>dataReady\<close> for the reference, and it puts nothing
  into the queue: the reference, which was the one at the end the queue hands out, is gone
  from it, and the next activation takes the next reference.
\<close>

theorem C9_step_exception_is_dropped:
  "get (data_queue s) = Val (r, q) \<Longrightarrow> func (s\<lparr>data_queue := q\<rparr>) r = (Exc e, s1) \<Longrightarrow>
   func_wrapper func s =
     (Val (), if e = Empty then s1\<lparr>interrupt := False\<rparr>
              else s1\<lparr>errors := errors s1 @ [''Failed whilst processing data''],
                      interrupt := False\<rparr>) \<and>
   dataReady (snd (func_wrapper func s)) = dataReady s1 \<and>
   data_queue (snd (func_wrapper func s)) = data_queue s1 \<and>
   heap (snd (func_wrapper func s)) = heap s1 \<and>
   r = last (queue (data_queue s)) \<and>
   q = (data_queue s)\<lparr>queue := butlast (queue (data_queue s))\<rparr>"
proof -
  assume g: "get (data_queue s) = Val (r, q)"
    and f: "func (s\<lparr>data_queue := q\<rparr>) r = (Exc e, s1)"
  have ne: "queue (data_queue s) \<noteq> []"
    using g get_empty [of "data_queue s"] by auto
  have "r = last (queue (data_queue s)) \<and>
        q = (data_queue s)\<lparr>queue := butlast (queue (data_queue s))\<rparr>"
    using g get_nonempty [OF ne] by simp
  then show ?thesis
    using g f func_wrapper_raise [of s r q func e s1] by simp
qed


theorem C9_step_exception_is_dropped_witness:
  "fst (func_wrapper (InfoWorker_process_data no_db_env) (sample_state two_items_heap [2, 1]))
     = Val () \<and>
   queue (data_queue (snd (func_wrapper (InfoWorker_process_data no_db_env)
     (sample_state two_items_heap [2, 1])))) = [2] \<and>
   dataReady (snd (func_wrapper (InfoWorker_process_data no_db_env)
     (sample_state two_items_heap [2, 1]))) = [] \<and>
   dataReady (snd (func_wrapper (InfoWorker_process_data no_db_env)
     (snd (func_wrapper (InfoWorker_process_data no_db_env)
       (sample_state two_items_heap [2, 1]))))) = [2]"
proof -
  let ?s = "sample_state two_items_heap [2, 1]"
  let ?q = "\<lparr>maxsize = 0, queue = [2], unfinished_tasks = 2\<rparr> :: ref UniqueQueue"
  let ?f = "InfoWorker_process_data no_db_env"
  have g: "get (data_queue ?s) = Val (1, ?q)"
    using get_sample_state [of two_items_heap 2 "[1]"] by simp
  have i: "item_at (?s\<lparr>data_queue := ?q\<rparr>) 1 = Some sample_item"
    by (simp add: item_at_def sample_state_def two_items_heap_def)
  have n: "\<not> interrupt (?s\<lparr>data_queue := ?q\<rparr>)"
    by (simp add: sample_state_def sample_worker_def BaseWorker_init_def)
  have f: "?f (?s\<lparr>data_queue := ?q\<rparr>) 1 = (Exc TypeError, ?s\<lparr>data_queue := ?q\<rparr>)"
    by (rule InfoWorker_no_db [OF i _ n, where server = "''server''" and job = "''job''"
          and root = "''root''" and rest = "[]"])
      (simp_all add: sample_item_def no_db_env_def)
  note c9 = C9_step_exception_is_dropped [where func = ?f, OF g f]
  let ?s1 = "snd (func_wrapper ?f ?s)"
  have s1: "func_wrapper ?f ?s =
      (Val (), ?s\<lparr>data_queue := ?q, errors := errors ?s @ [''Failed whilst processing data''],
         interrupt := False\<rparr>)"
    using c9 by simp
  have g2: "get (data_queue ?s1) = Val (2, \<lparr>maxsize = 0, queue = [], unfinished_tasks = 2\<rparr>)"
    using s1 by (simp add: get_nonempty)
  have i2: "item_at ?s1 2 = Some (sample_item\<lparr>FileInfoLoaded := True\<rparr>)"
    using s1 by (simp add: item_at_def sample_state_def two_items_heap_def)
  have l2: "FileInfoLoaded (sample_item\<lparr>FileInfoLoaded := True\<rparr>)"
    by simp
  have "dataReady (snd (func_wrapper ?f ?s1)) =
      (if interrupt ?s1 then dataReady ?s1 else dataReady ?s1 @ [2])"
    using InfoWorker_activation_loaded [where E = no_db_env, OF i2 l2 g2] by simp
  then have "dataReady (snd (func_wrapper ?f ?s1)) = [2]"
    using s1 by (simp add: sample_state_def sample_worker_def BaseWorker_init_def)
  then show ?thesis
    using s1 by (simp add: sample_state_def sample_worker_def BaseWorker_init_def)
qed

section \<open>C4: a reference that is dead when it is dequeued\<close>

text \<open>
  Claim C4. Let the reference handed out by the queue be dead: the heap holds no object
  for it. Then the step of each of the three workers (\<open>InfoWorker\<close>, \<open>ThumbnailWorker\<close>,
  \<open>TaskFolderWorker\<close>) returns \<open>None\<close> and leaves the whole state as it was, and the
  activation changes nothing but the queue, from which the reference is gone, and the
  interrupt flag, which is cleared: the heap is the same, so no field of any record is
  written, and \<open>dataReady\<close> is the same, so nothing is emitted.
\<close>

theorem C4_dead_reference_is_skipped:
  "heap s r = None \<Longrightarrow> get (data_queue s) = Val (r, q) \<Longrightarrow>
   InfoWorker_process_data E (s\<lparr>data_queue := q\<rparr>) r = (Val None, s\<lparr>data_queue := q\<rparr>) \<and>
   ThumbnailWorker_process_data E (s\<lparr>data_queue := q\<rparr>) r = (Val None, s\<lparr>data_queue := q\<rparr>) \<and>
   TaskFolderWorker_process_data E (s\<lparr>data_queue := q\<rparr>) r = (Val None, s\<lparr>data_queue := q\<rparr>) \<and>
   func_wrapper (InfoWorker_process_data E) s = (Val (), s\<lparr>data_queue := q, interrupt := False\<rparr>) \<and>
   func_wrapper (ThumbnailWorker_process_data E) s =
     (Val (), s\<lparr>data_queue := q, interrupt := False\<rparr>) \<and>
   func_wrapper (TaskFolderWorker_process_data E) s =
     (Val (), s\<lparr>data_queue := q, interrupt := False\<rparr>)"
proof -
  assume d: "heap s r = None" and g: "get (data_queue s) = Val (r, q)"
  let ?s = "s\<lparr>data_queue := q\<rparr>"
  have d1: "heap ?s r = None" using d by simp
  have a: "InfoWorker_process_data E ?s r = (Val None, ?s)"
    by (rule InfoWorker_dead [OF item_at_dead [OF d1]])
  have b: "ThumbnailWorker_process_data E ?s r = (Val None, ?s)"
    by (rule ThumbnailWorker_dead [OF item_at_dead [OF d1]])
  have c: "TaskFolderWorker_process_data E ?s r = (Val None, ?s)"
    by (rule TaskFolderWorker_dead [OF not_segment_dead [OF d1]])
  show ?thesis
    using a b c g by (simp add: func_wrapper_def func_body_def)
qed

theorem C4_dead_reference_is_skipped_witness:
  "func_wrapper (InfoWorker_process_data sample_env) (sample_state loaded_heap [1, 5]) =
     (Val (), (sample_state loaded_heap [1, 5])\<lparr>data_queue :=
        \<lparr>maxsize = 0, queue = [1], unfinished_tasks = 2\<rparr>, interrupt := False\<rparr>) \<and>
   func_wrapper (TaskFolderWorker_process_data sample_env) (sample_state loaded_heap [1, 5]) =
     (Val (), (sample_state loaded_heap [1, 5])\<lparr>data_queue :=
        \<lparr>maxsize = 0, queue = [1], unfinished_tasks = 2\<rparr>, interrupt := False\<rparr>) \<and>
   dataReady (snd (func_wrapper (ThumbnailWorker_process_data sample_env)
     (sample_state loaded_heap [1, 5]))) = []"
proof -
  have d: "heap (sample_state loaded_heap [1, 5]) 5 = None"
    by (simp add: sample_state_def loaded_heap_def)
  have g: "get (data_queue (sample_state loaded_heap [1, 5])) =
      Val (5, \<lparr>maxsize = 0, queue = [1], unfinished_tasks = 2\<rparr>)"
    using get_sample_state [of loaded_heap 1 "[5]"] by simp
  show ?thesis
    using C4_dead_reference_is_skipped [where E = sample_env, OF d g]
    by (simp add: sample_state_def sample_worker_def BaseWorker_init_def)
qed

section \<open>C7: the count of the entries of a task folder\<close>

text \<open>
  Claim C7. Given a live task folder all of whose sub-records are live, and with the
  interrupt flag not set, the step of \<open>TaskFolderWorker\<close> returns \<open>None\<close>, emits one
  \<open>dataReady\<close> for each sub-record, in their order, and none for the folder itself, and
  writes on each sub-record as \<open>TodoCountRole\<close> the number of the entries of its walk whose
  name does not start with a dot, or 1000 when there are 1000 of them or more. The
  docstring of the step says that it counts up to 999; the loop is left once the count is
  above 999, which is after the thousandth entry has been counted, so that the number
  written for a folder of a thousand files is 1000.
\<close>

theorem C7_count_is_capped_at_1000:
  "segment_at s r = Some vs \<Longrightarrow> vs \<noteq> [] \<Longrightarrow> \<not> interrupt s \<Longrightarrow>
   \<forall>c\<in>set vs. item_at s c \<noteq> None \<Longrightarrow>
   \<exists>s'. TaskFolderWorker_process_data E s r = (Val None, s') \<and>
     dataReady s' = dataReady s @ vs \<and> r \<notin> set vs \<and>
     (\<forall>c\<in>set vs. \<forall>it. item_at s c = Some it \<longrightarrow>
        item_at s' c = Some (it\<lparr>TodoCountRole :=
          min (int (length (filter (\<lambda>e. \<not> startswith_dot (name e)) (walk E (StatusTipRole it)))))
            1000\<rparr>))"
proof -
  assume sg: "segment_at s r = Some vs" and ne: "vs \<noteq> []" and ni: "\<not> interrupt s"
    and live: "\<forall>c\<in>set vs. item_at s c \<noteq> None"
  have "item_at s r = None"
    using sg by (simp add: item_at_def segment_at_def split: option.splits obj.splits)
  then have "r \<notin> set vs"
    using live by auto
  then show ?thesis
    using TaskFolderWorker_live [OF sg ne ni live, of E] by blast
qed

theorem C7_count_is_capped_at_1000_witness:
  "fst (TaskFolderWorker_process_data thousand_env (sample_state folder_heap []) 1) = Val None \<and>
   dataReady (snd (TaskFolderWorker_process_data thousand_env (sample_state folder_heap []) 1))
     = [2] \<and>
   item_at (snd (TaskFolderWorker_process_data thousand_env (sample_state folder_heap []) 1)) 2
     = Some (sample_item\<lparr>TodoCountRole := 1000\<rparr>)"
proof -
  let ?s = "sample_state folder_heap []"
  have sg: "segment_at ?s 1 = Some [2]"
    by (simp add: segment_at_def sample_state_def folder_heap_def)
  have i: "item_at ?s 2 = Some sample_item"
    by (simp add: item_at_def sample_state_def folder_heap_def)
  have ni: "\<not> interrupt ?s"
    by (simp add: sample_state_def sample_worker_def BaseWorker_init_def)
  have live: "\<forall>c\<in>set [2]. item_at ?s c \<noteq> None"
    using i by simp
  have d: "dataReady ?s = []"
    by (simp add: sample_state_def sample_worker_def BaseWorker_init_def)
  have n: "min (int (length (filter (\<lambda>e. \<not> startswith_dot (name e))
      (walk thousand_env (StatusTipRole sample_item))))) 1000 = 1000"
    by (simp add: thousand_env_def startswith_dot_def)
  from C7_count_is_capped_at_1000 [where E = thousand_env, OF sg _ ni live]
  obtain s' where
    r: "TaskFolderWorker_process_data thousand_env ?s 1 = (Val None, s')" and
    e: "dataReady s' = dataReady ?s @ [2]" and
    t: "\<forall>c\<in>set [2]. \<forall>it. item_at ?s c = Some it \<longrightarrow>
        item_at s' c = Some (it\<lparr>TodoCountRole :=
          min (int (length (filter (\<lambda>e. \<not> startswith_dot (name e))
            (walk thousand_env (StatusTipRole it))))) 1000\<rparr>)"
    by auto
  have "item_at s' 2 = Some (sample_item\<lparr>TodoCountRole := 1000\<rparr>)"
    using t i n by simp
  then show ?thesis
    using r e d by simp
qed

section \<open>C5: a source file at or above the size ceiling\<close>

text \<open>
  Claim C5, as amended. Let the reference be to a live item whose source file (the first
  file of the sequence when the path is a collapsed one) is of \<open>pow(1024, 3) * 2\<close> bytes
  or more. Then the step of \<open>ThumbnailWorker\<close> never calls the generator
  \<open>oiio_make_thumbnail\<close>: the calls recorded in \<open>generated\<close> are the same after it. And
  when the step gets as far as the test of the size, that is, the interrupt flag is not
  set, the item is not archived, its file information is loaded, its thumbnail is not, no
  saved thumbnail file exists and the extension is one that can be read, the step returns
  \<open>None\<close> and the one change it leaves is \<open>FileThumbnailLoaded = True\<close> on the item: the
  image of the item is the one it had, its default one if it had its default one.
\<close>

theorem C5_oversize_source_is_not_generated:
  "item_at s r = Some it \<Longrightarrow>
   size_ceiling \<le> file_size E (if is_collapsed E (StatusTipRole it)
      then get_sequence_startpath E (StatusTipRole it) else StatusTipRole it) \<Longrightarrow>
   generated (snd (ThumbnailWorker_process_data E s r)) = generated s \<and>
   (\<not> interrupt s \<and> FlagsRole it AND MarkedAsArchived E = 0 \<and> FileInfoLoaded it \<and>
    \<not> FileThumbnailLoaded it \<and> \<not> file_exists E (ThumbnailPathRole it) \<and>
    lower (lower (last (split (StatusTipRole it) CHR ''.''))) \<in> set (get_extensions E) \<longrightarrow>
    ThumbnailWorker_process_data E s r =
      (Val None, s\<lparr>heap := (heap s)(r \<mapsto> Item (it\<lparr>FileThumbnailLoaded := True\<rparr>))\<rparr>))"
  using ThumbnailWorker_oversize_generated [of s r it E]
    ThumbnailWorker_oversize_reached [of s r it E]
  by blast

theorem C5_oversize_source_is_not_generated_witness:
  "size_ceiling \<le> file_size oversize_env ''/jobs/shot.0001.exr'' \<and>
   generated (snd (ThumbnailWorker_process_data oversize_env (sample_state loaded_heap []) 1))
     = [] \<and>
   ThumbnailWorker_process_data oversize_env (sample_state loaded_heap []) 1 =
     (Val None, (sample_state loaded_heap [])\<lparr>heap :=
        loaded_heap(1 \<mapsto> Item (sample_item\<lparr>FileInfoLoaded := True,
          FileThumbnailLoaded := True\<rparr>))\<rparr>)"
proof -
  let ?s = "sample_state loaded_heap []"
  let ?it = "sample_item\<lparr>FileInfoLoaded := True\<rparr>"
  have i: "item_at ?s 1 = Some ?it"
    by (simp add: item_at_def sample_state_def loaded_heap_def)
  have st: "StatusTipRole ?it = ''/jobs/shot.0001.exr''"
    by (simp add: sample_item_def)
  have c: "\<not> is_collapsed oversize_env p" for p
    by (simp add: oversize_env_def sample_env_def)
  have big: "size_ceiling \<le> file_size oversize_env p" for p
    by (simp add: size_ceiling_def oversize_env_def sample_env_def)
  have big1: "size_ceiling \<le> file_size oversize_env (if is_collapsed oversize_env (StatusTipRole ?it)
      then get_sequence_startpath oversize_env (StatusTipRole ?it) else StatusTipRole ?it)"
    by (rule big)
  have ext: "lower (lower (last (split (StatusTipRole ?it) CHR ''.''))) = ''exr''"
    unfolding st by code_simp
  have pre: "\<not> interrupt ?s \<and> FlagsRole ?it AND MarkedAsArchived oversize_env = 0 \<and>
     FileInfoLoaded ?it \<and> \<not> FileThumbnailLoaded ?it \<and>
     \<not> file_exists oversize_env (ThumbnailPathRole ?it) \<and>
     lower (lower (last (split (StatusTipRole ?it) CHR ''.''))) \<in> set (get_extensions oversize_env)"
    unfolding ext
    by (simp add: sample_state_def sample_worker_def BaseWorker_init_def sample_item_def
        oversize_env_def sample_env_def)
  have g: "generated ?s = []"
    by (simp add: sample_state_def sample_worker_def BaseWorker_init_def)
  have h: "heap ?s = loaded_heap"
    by (simp add: sample_state_def)
  show ?thesis
    using C5_oversize_source_is_not_generated [where E = oversize_env, OF i big1] pre g h big
    by simp
qed

text \<open>
  The claim as it was stated asks for \<open>FileThumbnailLoaded\<close> and for the default image
  after the step on every live item of such a size. On an archived item the step returns
  at once and \<open>FileThumbnailLoaded\<close> stays \<open>False\<close>; on an item that shows another image
  than its default one, the step that reaches the test of the size leaves that image, since
  only the handler of the exceptions assigns the default image.
\<close>

theorem C5_counterexample:
  "item_at (sample_state archived_heap []) 1 \<noteq> None \<and>
   item_at (sample_state spinner_heap []) 1 \<noteq> None \<and>
   size_ceiling \<le> file_size oversize_env ''/jobs/shot.0001.exr'' \<and>
   fst (ThumbnailWorker_process_data oversize_env (sample_state archived_heap []) 1) = Val None \<and>
   map_option FileThumbnailLoaded
     (item_at (snd (ThumbnailWorker_process_data oversize_env (sample_state archived_heap []) 1)) 1)
     = Some False \<and>
   fst (ThumbnailWorker_process_data oversize_env (sample_state spinner_heap []) 1) = Val None \<and>
   map_option ThumbnailRole
     (item_at (snd (ThumbnailWorker_process_data oversize_env (sample_state spinner_heap []) 1)) 1)
     = Some (Some 3) \<and>
   map_option DefaultThumbnailRole
     (item_at (snd (ThumbnailWorker_process_data oversize_env (sample_state spinner_heap []) 1)) 1)
     = Some (Some 7)"
proof -
  let ?a = "sample_state archived_heap []"
  let ?ia = "sample_item\<lparr>FlagsRole := 513, FileInfoLoaded := True\<rparr>"
  let ?b = "sample_state spinner_heap []"
  let ?ib = "sample_item\<lparr>FileInfoLoaded := True, ThumbnailRole := Some 3\<rparr>"
  have big: "size_ceiling \<le> file_size oversize_env p" for p
    by (simp add: size_ceiling_def oversize_env_def sample_env_def)
  have ia: "item_at ?a 1 = Some ?ia"
    by (simp add: item_at_def sample_state_def archived_heap_def)
  have fa: "FlagsRole ?ia AND MarkedAsArchived oversize_env \<noteq> 0"
    by (simp add: oversize_env_def sample_env_def)
  have a: "ThumbnailWorker_process_data oversize_env ?a 1 = (Val None, ?a)"
    by (rule ThumbnailWorker_archived [OF ia fa])
  have la: "\<not> FileThumbnailLoaded ?ia"
    by (simp add: sample_item_def)
  have ib: "item_at ?b 1 = Some ?ib"
    by (simp add: item_at_def sample_state_def spinner_heap_def)
  have st: "StatusTipRole ?ib = ''/jobs/shot.0001.exr''"
    by (simp add: sample_item_def)
  have ext: "lower (lower (last (split (StatusTipRole ?ib) CHR ''.''))) = ''exr''"
    unfolding st by code_simp
  have b: "ThumbnailWorker_process_data oversize_env ?b 1 =
      (Val None, ?b\<lparr>heap := (heap ?b)(1 \<mapsto> Item (?ib\<lparr>FileThumbnailLoaded := True\<rparr>))\<rparr>)"
    by (rule ThumbnailWorker_oversize_reached [OF ib big], unfold ext)
      (simp_all add: sample_state_def sample_worker_def BaseWorker_init_def sample_item_def
        oversize_env_def sample_env_def)
  have d: "DefaultThumbnailRole ?ib = Some 7"
    by (simp add: sample_item_def)
  show ?thesis
    using a ia la b ib d big by (simp add: item_at_def)
qed

end
